theory Spec2Isabelle
  imports Complex_Main "HOL-Library.Sublist" "HOL-Library.Log_Nat"
begin

section \<open>Python values, strings and exceptions\<close>

text \<open>
  Article dictionaries hold strings or \<open>None\<close> (the fetch layer builds them from JSON
  strings and nulls). A Python \<open>str\<close> is modelled as a HOL \<open>string\<close> whose characters
  are the code points below 256; \<open>len\<close> is \<open>length\<close>. The exceptions are the instances
  of \<open>Exception\<close> that the code raises or that its \<open>except Exception\<close> clauses catch.
  A \<open>KeyError\<close> carries its key, an \<open>AttributeError\<close> the attribute that \<open>None\<close> lacks,
  an error of the \<open>OSError\<close> family its path, and the others their message.
\<close>

datatype pyval = PNone | PStr string

type_synonym article = "string \<rightharpoonup> pyval"

datatype exn =
    KeyError string
  | TypeError string
  | AttributeError string
  | ValueError string
  | IndexError string
  | ZeroDivisionError
  | RecursionError
  | RequestsTimeout string
  | RequestsConnectionError string
  | NotADirectoryError string
  | IsADirectoryError string
  | FileNotFoundError string
  | Exception string

text \<open>A text in single quotes, and the messages of the two \<open>TypeError\<close>s on \<open>None\<close>.\<close>

definition quoted :: "string \<Rightarrow> string" where
  "quoted s = [CHR 0x27] @ s @ [CHR 0x27]"

definition no_len :: string where
  "no_len = ''object of type '' @ quoted ''NoneType'' @ '' has no len()''"

definition not_subscriptable :: string where
  "not_subscriptable = quoted ''NoneType'' @ '' object is not subscriptable''"

text \<open>Truthiness (\<open>not v\<close> is its negation): \<open>None\<close> and the empty string are falsy.\<close>

fun truthy :: "pyval \<Rightarrow> bool" where
  "truthy PNone = False"
| "truthy (PStr s) = (s \<noteq> [])"

text \<open>\<open>str.isspace\<close> on the code points below 256, and \<open>str.strip()\<close>.\<close>

definition py_isspace :: "char \<Rightarrow> bool" where
  "py_isspace c = (let n = (of_char c :: nat) in
     (9 \<le> n \<and> n \<le> 13) \<or> (28 \<le> n \<and> n \<le> 32) \<or> n = 133 \<or> n = 160)"

definition py_strip :: "string \<Rightarrow> string" where
  "py_strip s = rev (dropWhile py_isspace (rev (dropWhile py_isspace s)))"

text \<open>\<open>v.strip()\<close> on a dictionary value: \<open>None\<close> has no such attribute.\<close>

fun strip_val :: "pyval \<Rightarrow> exn + string" where
  "strip_val PNone = Inl (AttributeError ''strip'')"
| "strip_val (PStr s) = Inr (py_strip s)"

text \<open>\<open>d[k]\<close> raises \<open>KeyError\<close> on a missing key.\<close>

definition subscript :: "article \<Rightarrow> string \<Rightarrow> exn + pyval" where
  "subscript a k = (case a k of None \<Rightarrow> Inl (KeyError k) | Some v \<Rightarrow> Inr v)"

text \<open>\<open>d.get(k, dflt)\<close>.\<close>

definition get_default :: "article \<Rightarrow> string \<Rightarrow> pyval \<Rightarrow> pyval" where
  "get_default a k dflt = (case a k of None \<Rightarrow> dflt | Some v \<Rightarrow> v)"

text \<open>
  \<open>article.get('content', '')\<close> where \<open>len\<close> is the first thing applied to it: a string,
  or the \<open>TypeError\<close> of \<open>len(None)\<close>.
\<close>

definition content_string :: "article \<Rightarrow> exn + string" where
  "content_string a =
     (case get_default a ''content'' (PStr '''') of
        PNone \<Rightarrow> Inl (TypeError no_len)
      | PStr c \<Rightarrow> Inr c)"

section \<open>The file system\<close>

text \<open>
  The disk is a map from path names to nodes. \<open>os.path.exists\<close>, \<open>shutil.rmtree\<close> and
  \<open>os.remove\<close> are modelled with the failures they have on the wrong kind of node.
\<close>

datatype node = Dir | File

type_synonym fs = "string \<rightharpoonup> node"

definition path_exists :: "fs \<Rightarrow> string \<Rightarrow> bool" where
  "path_exists d p = (d p \<noteq> None)"

definition under :: "string \<Rightarrow> string \<Rightarrow> bool" where
  "under p q = prefix (p @ ''/'') q"

definition rmtree :: "string \<Rightarrow> fs \<Rightarrow> exn + fs" where
  "rmtree p d = (case d p of
      None \<Rightarrow> Inl (FileNotFoundError p)
    | Some File \<Rightarrow> Inl (NotADirectoryError p)
    | Some Dir \<Rightarrow> Inr (\<lambda>q. if q = p \<or> under p q then None else d q))"

definition os_remove :: "string \<Rightarrow> fs \<Rightarrow> exn + fs" where
  "os_remove p d = (case d p of
      None \<Rightarrow> Inl (FileNotFoundError p)
    | Some Dir \<Rightarrow> Inl (IsADirectoryError p)
    | Some File \<Rightarrow> Inr (d(p := None)))"

section \<open>rag/ingest.py: clearing the vector store\<close>

definition metadata_files :: "string list" where
  "metadata_files = [''data/ingestion_metadata.json'', ''data/langchain_metadata.json'']"

text \<open>The loop over \<open>metadata_files\<close>; an exception leaves the disk as it is at that point.\<close>

fun clear_files :: "string list \<Rightarrow> fs \<Rightarrow> (exn option \<times> fs)" where
  "clear_files [] d = (None, d)"
| "clear_files (p # ps) d =
     (if path_exists d p
      then (case os_remove p d of Inl e \<Rightarrow> (Some e, d) | Inr d' \<Rightarrow> clear_files ps d')
      else clear_files ps d)"

text \<open>
  \<open>clear_vector_store\<close>, with \<open>store_path\<close> the configured \<open>VECTOR_STORE_PATH\<close>. The result
  is the returned flag and the disk afterwards; every exception is caught and gives \<open>False\<close>.
\<close>

definition clear_vector_store :: "string \<Rightarrow> fs \<Rightarrow> bool \<times> fs" where
  "clear_vector_store store_path d =
     (if path_exists d store_path
      then (case rmtree store_path d of
              Inl e \<Rightarrow> (False, d)
            | Inr d' \<Rightarrow> (case clear_files metadata_files d' of
                          (None, d'') \<Rightarrow> (True, d'')
                        | (Some e, d'') \<Rightarrow> (False, d'')))
      else (case clear_files metadata_files d of
              (None, d'') \<Rightarrow> (True, d'')
            | (Some e, d'') \<Rightarrow> (False, d'')))"

definition store_absent :: "string \<Rightarrow> fs \<Rightarrow> bool" where
  "store_absent store_path d =
     (\<not> path_exists d store_path \<and> list_all (\<lambda>p. \<not> path_exists d p) metadata_files)"

section \<open>rag/ingest.py: ingestion\<close>

record document =
  page_content :: string
  metadata :: article

datatype log_entry = Info string | Warning string | Error string

definition required_fields :: "string list" where
  "required_fields = [''title'', ''content'', ''source'', ''url'', ''published_at'']"

text \<open>The loop of \<open>_validate_article\<close> over the required fields, with its early return.\<close>

fun check_required :: "string list \<Rightarrow> article \<Rightarrow> bool" where
  "check_required [] a = True"
| "check_required (f # fs) a =
     (case a f of
        None \<Rightarrow> False
      | Some v \<Rightarrow> if \<not> truthy v then False else check_required fs a)"

definition validate_article :: "article \<Rightarrow> exn + bool" where
  "validate_article a =
     (if \<not> check_required required_fields a then Inr False
      else case subscript a ''content'' of
             Inl e \<Rightarrow> Inl e
           | Inr v \<Rightarrow> (case strip_val v of
                         Inl e \<Rightarrow> Inl e
                       | Inr s \<Rightarrow> if length s < 50 then Inr False else Inr True))"

text \<open>The first loop of \<open>ingest_documents\<close>: the valid articles, in input order.\<close>

fun collect_valid :: "article list \<Rightarrow> exn + article list" where
  "collect_valid [] = Inr []"
| "collect_valid (a # as) =
     (case validate_article a of
        Inl e \<Rightarrow> Inl e
      | Inr ok \<Rightarrow> (case collect_valid as of
                     Inl e \<Rightarrow> Inl e
                   | Inr vs \<Rightarrow> Inr (if ok then a # vs else vs)))"

text \<open>\<open>_create_metadata\<close>; \<open>now\<close> is the value of \<open>datetime.now().isoformat()\<close>.\<close>

definition create_metadata :: "string \<Rightarrow> article \<Rightarrow> exn + article" where
  "create_metadata now a =
     (case subscript a ''title'' of Inl e \<Rightarrow> Inl e | Inr t \<Rightarrow>
      case subscript a ''source'' of Inl e \<Rightarrow> Inl e | Inr s \<Rightarrow>
      case subscript a ''url'' of Inl e \<Rightarrow> Inl e | Inr u \<Rightarrow>
      case subscript a ''published_at'' of Inl e \<Rightarrow> Inl e | Inr p \<Rightarrow>
      Inr [''title'' \<mapsto> t, ''source'' \<mapsto> s, ''url'' \<mapsto> u, ''published_at'' \<mapsto> p,
           ''author'' \<mapsto> get_default a ''author'' (PStr ''Unknown''),
           ''ingested_at'' \<mapsto> PStr now])"

text \<open>\<open>Document(page_content=article['content'], metadata=...)\<close>: the content must be a string.\<close>

definition make_document :: "string \<Rightarrow> article \<Rightarrow> exn + document" where
  "make_document now a =
     (case subscript a ''content'' of
        Inl e \<Rightarrow> Inl e
      | Inr PNone \<Rightarrow> Inl (ValueError ''page_content'')
      | Inr (PStr c) \<Rightarrow> (case create_metadata now a of
                           Inl e \<Rightarrow> Inl e
                         | Inr m \<Rightarrow> Inr \<lparr>page_content = c, metadata = m\<rparr>))"

fun create_documents :: "string \<Rightarrow> article list \<Rightarrow> exn + document list" where
  "create_documents now [] = Inr []"
| "create_documents now (a # as) =
     (case make_document now a of
        Inl e \<Rightarrow> Inl e
      | Inr d \<Rightarrow> (case create_documents now as of
                    Inl e \<Rightarrow> Inl e
                  | Inr ds \<Rightarrow> Inr (d # ds)))"

text \<open>
  The calls into the embedding, index and splitter libraries are parameters: each may raise.
  The index is the list of chunks it holds.
\<close>

record externals =
  x_now :: string
  x_split :: "document \<Rightarrow> exn + document list"
  x_load_local :: "fs \<Rightarrow> exn + document list"
  x_from_documents :: "exn + document list"
  x_add_documents :: "document list \<Rightarrow> document list \<Rightarrow> exn + document list"
  x_save_local :: "document list \<Rightarrow> string \<Rightarrow> fs \<Rightarrow> exn + fs"

fun split_all :: "externals \<Rightarrow> document list \<Rightarrow> exn + document list" where
  "split_all x [] = Inr []"
| "split_all x (d # ds) =
     (case x_split x d of
        Inl e \<Rightarrow> Inl e
      | Inr cs \<Rightarrow> (case split_all x ds of
                     Inl e \<Rightarrow> Inl e
                   | Inr rest \<Rightarrow> Inr (cs @ rest)))"

record ingestor =
  i_store :: "document list option"
  i_disk :: fs

text \<open>\<open>_load_or_create_store\<close>: any exception leaves \<open>self.store = None\<close>.\<close>

definition load_or_create_store :: "externals \<Rightarrow> string \<Rightarrow> ingestor \<Rightarrow> ingestor" where
  "load_or_create_store x store_path st =
     (if path_exists (i_disk st) store_path
      then (case x_load_local x (i_disk st) of
              Inl e \<Rightarrow> st\<lparr>i_store := None\<rparr>
            | Inr s \<Rightarrow> st\<lparr>i_store := Some s\<rparr>)
      else (case x_from_documents x of
              Inl e \<Rightarrow> st\<lparr>i_store := None\<rparr>
            | Inr s \<Rightarrow> st\<lparr>i_store := Some s\<rparr>))"

text \<open>
  \<open>open(path, "w")\<close> followed by \<open>json.dump\<close>: fails on a directory and when the parent
  directory \<open>data\<close> is missing.
\<close>

definition write_json :: "string \<Rightarrow> fs \<Rightarrow> exn + fs" where
  "write_json p d =
     (if d p = Some Dir then Inl (IsADirectoryError p)
      else if d ''data'' \<noteq> Some Dir then Inl (FileNotFoundError p)
      else Inr (d(p \<mapsto> File)))"

text \<open>The four subscripts of one entry of the metadata and summary lists.\<close>

definition entry_fields :: "article \<Rightarrow> exn + unit" where
  "entry_fields a =
     (case subscript a ''title'' of Inl e \<Rightarrow> Inl e | Inr t \<Rightarrow>
      case subscript a ''source'' of Inl e \<Rightarrow> Inl e | Inr s \<Rightarrow>
      case subscript a ''url'' of Inl e \<Rightarrow> Inl e | Inr u \<Rightarrow>
      case subscript a ''published_at'' of Inl e \<Rightarrow> Inl e | Inr p \<Rightarrow> Inr ())"

fun all_entry_fields :: "article list \<Rightarrow> exn + unit" where
  "all_entry_fields [] = Inr ()"
| "all_entry_fields (a # as) =
     (case entry_fields a of Inl e \<Rightarrow> Inl e | Inr u \<Rightarrow> all_entry_fields as)"

text \<open>
  One entry of the summary list: the four subscripts again, then
  \<open>len(article.get('content', ''))\<close>.
\<close>

definition summary_fields :: "article \<Rightarrow> exn + unit" where
  "summary_fields a =
     (case entry_fields a of
        Inl e \<Rightarrow> Inl e
      | Inr u \<Rightarrow> (case content_string a of Inl e \<Rightarrow> Inl e | Inr c \<Rightarrow> Inr ()))"

fun all_summary_fields :: "article list \<Rightarrow> exn + unit" where
  "all_summary_fields [] = Inr ()"
| "all_summary_fields (a # as) =
     (case summary_fields a of Inl e \<Rightarrow> Inl e | Inr u \<Rightarrow> all_summary_fields as)"

text \<open>
  \<open>_save_ingestion_metadata\<close>: the metadata file, then the summaries file. Its own
  \<open>except\<close> logs the error and returns normally; the result is the log and the disk.
\<close>

definition save_ingestion_metadata :: "article list \<Rightarrow> fs \<Rightarrow> log_entry list \<times> fs" where
  "save_ingestion_metadata articles d =
     (case all_entry_fields articles of
        Inl e \<Rightarrow> ([Error ''Failed to save metadata''], d)
      | Inr u \<Rightarrow>
     (case write_json ''data/ingestion_metadata.json'' d of
        Inl e \<Rightarrow> ([Error ''Failed to save metadata''], d)
      | Inr d1 \<Rightarrow>
     (case all_summary_fields articles of
        Inl e \<Rightarrow> ([Info ''Metadata saved'', Error ''Failed to save metadata''], d1)
      | Inr u \<Rightarrow>
     (case write_json ''data/summaries.json'' d1 of
        Inl e \<Rightarrow> ([Info ''Metadata saved'', Error ''Failed to save metadata''], d1)
      | Inr d2 \<Rightarrow> ([Info ''Metadata saved'', Info ''Summaries saved''], d2)))))"

text \<open>
  \<open>ingest_documents\<close>. The result is the returned flag, the log of the side-file step and the
  ingestor afterwards. Every exception of the body is caught and gives \<open>False\<close>.
\<close>

definition ingest_documents ::
  "externals \<Rightarrow> string \<Rightarrow> ingestor \<Rightarrow> article list \<Rightarrow> bool \<times> log_entry list \<times> ingestor" where
  "ingest_documents x store_path st articles =
     (if articles = [] then (False, [], st)
      else case collect_valid articles of
        Inl e \<Rightarrow> (False, [], st)
      | Inr valid_articles \<Rightarrow>
      if valid_articles = [] then (False, [], st)
      else case create_documents (x_now x) valid_articles of
        Inl e \<Rightarrow> (False, [], st)
      | Inr documents \<Rightarrow>
      (case split_all x documents of
        Inl e \<Rightarrow> (False, [], st)
      | Inr all_chunks \<Rightarrow>
      (let st1 = load_or_create_store x store_path st in
       case i_store st1 of
         None \<Rightarrow> (False, [], st1)
       | Some s \<Rightarrow>
       (case x_add_documents x s all_chunks of
          Inl e \<Rightarrow> (False, [], st1)
        | Inr s' \<Rightarrow>
        (let st2 = st1\<lparr>i_store := Some s'\<rparr> in
         case x_save_local x s' store_path (i_disk st2) of
           Inl e \<Rightarrow> (False, [], st2)
         | Inr d' \<Rightarrow>
           (case save_ingestion_metadata valid_articles d' of
              (lg, d'') \<Rightarrow> (True, lg, st2\<lparr>i_disk := d''\<rparr>)))))))"

text \<open>
  The validity of an article in the words of the specification: the five fields are present
  and non-empty, and the stripped content has at least 50 characters.
\<close>

definition spec_valid_article :: "article \<Rightarrow> bool" where
  "spec_valid_article a =
     (list_all (\<lambda>f. case a f of Some (PStr s) \<Rightarrow> s \<noteq> [] | _ \<Rightarrow> False) required_fields \<and>
      (case a ''content'' of Some (PStr c) \<Rightarrow> 50 \<le> length (py_strip c) | _ \<Rightarrow> False))"

section \<open>rag/query.py: the query engine\<close>

text \<open>
  The dictionary returned by the retrieval chain: the keys \<open>result\<close> and
  \<open>source_documents\<close> may be missing.
\<close>

record qa_result =
  r_result :: "string option"
  r_source_documents :: "document list option"

text \<open>A loaded chain is its \<open>invoke\<close> method, a library call that may raise.\<close>

type_synonym qa_chain = "string \<Rightarrow> exn + qa_result"

record engine =
  q_store :: "document list option"
  q_qa_chain :: "qa_chain option"

text \<open>\<open>str(e)\<close> for the exceptions of the model.\<close>

fun exn_str :: "exn \<Rightarrow> string" where
  "exn_str (KeyError k) = quoted k"
| "exn_str (TypeError m) = m"
| "exn_str (AttributeError a) =
     quoted ''NoneType'' @ '' object has no attribute '' @ quoted a"
| "exn_str (ValueError m) = m"
| "exn_str (IndexError m) = m"
| "exn_str ZeroDivisionError = ''division by zero''"
| "exn_str RecursionError = ''maximum recursion depth exceeded''"
| "exn_str (RequestsTimeout m) = m"
| "exn_str (RequestsConnectionError m) = m"
| "exn_str (NotADirectoryError p) = ''[Errno 20] Not a directory: '' @ quoted p"
| "exn_str (IsADirectoryError p) = ''[Errno 21] Is a directory: '' @ quoted p"
| "exn_str (FileNotFoundError p) = ''[Errno 2] No such file or directory: '' @ quoted p"
| "exn_str (Exception m) = m"

text \<open>
  \<open>_load_vector_store\<close>, with the two library calls \<open>FAISS.load_local\<close> and
  \<open>RetrievalQA.from_chain_type\<close> as parameters. The result is the log and the engine
  afterwards. When the path does not exist the method logs a warning and returns.
\<close>

definition load_vector_store ::
  "(fs \<Rightarrow> exn + document list) \<Rightarrow> (document list \<Rightarrow> exn + qa_chain) \<Rightarrow>
   string \<Rightarrow> fs \<Rightarrow> engine \<Rightarrow> log_entry list \<times> engine" where
  "load_vector_store load_local from_chain_type store_path d eng =
     (if \<not> path_exists d store_path
      then ([Warning (''Vector store not found at '' @ store_path)], eng)
      else case load_local d of
        Inl e \<Rightarrow> ([Error (''Failed to load vector store: '' @ exn_str e)], eng)
      | Inr s \<Rightarrow>
        (let eng1 = eng\<lparr>q_store := Some s\<rparr> in
         case from_chain_type s of
           Inl e \<Rightarrow> ([Error (''Failed to load vector store: '' @ exn_str e)], eng1)
         | Inr ch \<Rightarrow> ([Info ''Vector store loaded successfully''],
                       eng1\<lparr>q_qa_chain := Some ch\<rparr>)))"

text \<open>\<open>reload_vector_store\<close> re-runs the load step and returns \<open>True\<close>.\<close>

definition reload_vector_store ::
  "(fs \<Rightarrow> exn + document list) \<Rightarrow> (document list \<Rightarrow> exn + qa_chain) \<Rightarrow>
   string \<Rightarrow> fs \<Rightarrow> engine \<Rightarrow> bool \<times> log_entry list \<times> engine" where
  "reload_vector_store load_local from_chain_type store_path d eng =
     (True, load_vector_store load_local from_chain_type store_path d eng)"

datatype query_result = QError string | QAnswer string "article list"

definition content_preview :: "string \<Rightarrow> string" where
  "content_preview c = (if 200 < length c then take 200 c @ ''...'' else c)"

definition format_source :: "document \<Rightarrow> article" where
  "format_source doc =
     [''title'' \<mapsto> get_default (metadata doc) ''title'' (PStr ''Unknown''),
      ''source'' \<mapsto> get_default (metadata doc) ''source'' (PStr ''Unknown''),
      ''url'' \<mapsto> get_default (metadata doc) ''url'' (PStr ''''),
      ''published_at'' \<mapsto> get_default (metadata doc) ''published_at'' (PStr ''''),
      ''content_preview'' \<mapsto> PStr (content_preview (page_content doc))]"

text \<open>The body of \<open>query\<close> inside its \<open>try\<close>.\<close>

definition query_body :: "engine \<Rightarrow> string \<Rightarrow> exn + query_result" where
  "query_body eng question =
     (case q_qa_chain eng of
        None \<Rightarrow> Inr (QError ''Knowledge base not loaded. Please fetch some articles first.'')
      | Some chain \<Rightarrow>
        (case chain question of
           Inl e \<Rightarrow> Inl e
         | Inr result \<Rightarrow>
           Inr (QAnswer
                  (case r_result result of None \<Rightarrow> ''No answer generated'' | Some a \<Rightarrow> a)
                  (map format_source
                     (case r_source_documents result of None \<Rightarrow> [] | Some ds \<Rightarrow> ds)))))"

text \<open>\<open>query\<close>: the \<open>except Exception\<close> clause turns an exception into an error result.\<close>

definition query :: "engine \<Rightarrow> string \<Rightarrow> exn + query_result" where
  "query eng question =
     (case query_body eng question of
        Inl e \<Rightarrow> Inr (QError (''Query failed: '' @ exn_str e))
      | Inr r \<Rightarrow> Inr r)"

section \<open>Numbers\<close>

text \<open>
  Python's \<open>float\<close> is IEEE-754 binary64. A finite float is a rational number, and every
  arithmetic operation returns the exact result rounded to the nearest binary64 value, ties
  to the value with an even significand. \<open>rnd\<close> is that rounding on the normal range (53
  significant bits); the values of this program are far from overflow and underflow. An
  \<open>int\<close> is the rational of the same value.
\<close>

definition round_half_even :: "rat \<Rightarrow> int" where
  "round_half_even y =
     (let f = \<lfloor>y\<rfloor>; d = y - of_int f
      in if d < 1 / 2 then f else if 1 / 2 < d then f + 1 else if even f then f else f + 1)"

text \<open>The exponent \<open>e\<close> with \<open>2 ^ e \<le> \<bar>x\<bar> < 2 ^ (e + 1)\<close>, for \<open>x \<noteq> 0\<close>.\<close>

definition ilog2 :: "rat \<Rightarrow> int" where
  "ilog2 x =
     (let (a, b) = quotient_of \<bar>x\<bar>;
          e0 = int (floorlog 2 (nat a)) - int (floorlog 2 (nat b))
      in if 2 powi e0 \<le> \<bar>x\<bar> then e0 else e0 - 1)"

definition rnd :: "rat \<Rightarrow> rat" where
  "rnd x =
     (if x = 0 then 0
      else let scale = 2 powi (ilog2 x - 52)
           in sgn x * of_int (round_half_even (\<bar>x\<bar> / scale)) * scale)"

definition fadd :: "rat \<Rightarrow> rat \<Rightarrow> rat" where
  "fadd a b = rnd (a + b)"

definition fsub :: "rat \<Rightarrow> rat \<Rightarrow> rat" where
  "fsub a b = rnd (a - b)"

definition fmul :: "rat \<Rightarrow> rat \<Rightarrow> rat" where
  "fmul a b = rnd (a * b)"

text \<open>True division \<open>a / b\<close> of ints or floats; a zero divisor raises.\<close>

definition truediv :: "rat \<Rightarrow> rat \<Rightarrow> exn + rat" where
  "truediv a b = (if b = 0 then Inl ZeroDivisionError else Inr (rnd (a / b)))"

text \<open>
  The builtin \<open>sum\<close> on a list of floats depends on the interpreter: CPython before 3.12
  adds from left to right, starting from the int \<open>0\<close>, and that loop is \<open>py_sum\<close>; later
  versions carry a compensation term along. The functions that call \<open>sum\<close> on floats
  therefore take it as their first argument \<open>fsum\<close>.
\<close>

definition py_sum :: "rat list \<Rightarrow> rat" where
  "py_sum xs = foldl fadd 0 xs"

section \<open>Text\<close>

text \<open>\<open>str.lower()\<close> on the code points below 256.\<close>

definition py_lower_char :: "char \<Rightarrow> char" where
  "py_lower_char c =
     (let n = (of_char c :: nat)
      in if (65 \<le> n \<and> n \<le> 90) \<or> (192 \<le> n \<and> n \<le> 214) \<or> (216 \<le> n \<and> n \<le> 222)
         then char_of (n + 32) else c)"

definition py_lower :: "string \<Rightarrow> string" where
  "py_lower s = map py_lower_char s"

text \<open>The substring test \<open>sub in text\<close>.\<close>

fun py_in :: "string \<Rightarrow> string \<Rightarrow> bool" where
  "py_in sub [] = (sub = [])"
| "py_in sub (c # cs) = (prefix sub (c # cs) \<or> py_in sub cs)"

text \<open>\<open>sum(1 for w in words if w in text)\<close>.\<close>

definition count_in :: "string list \<Rightarrow> string \<Rightarrow> nat" where
  "count_in words text = length (filter (\<lambda>w. py_in w text) words)"

text \<open>The text an f-string puts in for a value.\<close>

fun py_format :: "pyval \<Rightarrow> string" where
  "py_format PNone = ''None''"
| "py_format (PStr s) = s"

section \<open>bias\_detection/bias\_analyzer.py: sentiment\<close>

definition positive_words :: "string list" where
  "positive_words =
     [''positive'', ''good'', ''great'', ''excellent'', ''success'', ''win'', ''gain'', ''profit'']"

definition negative_words :: "string list" where
  "negative_words =
     [''negative'', ''bad'', ''terrible'', ''failure'', ''loss'', ''decline'', ''crisis'', ''problem'']"

definition full_text :: "article \<Rightarrow> string" where
  "full_text a =
     py_lower (py_format (get_default a ''title'' (PStr '''')) @ '' '' @
               py_format (get_default a ''content'' (PStr '''')))"

text \<open>
  The loop of \<open>_analyze_sentiment_bias\<close> over the articles; the state is
  \<open>(positive_count, negative_count, neutral_count)\<close>.
\<close>

fun count_sentiment :: "article list \<Rightarrow> nat \<times> nat \<times> nat \<Rightarrow> nat \<times> nat \<times> nat" where
  "count_sentiment [] acc = acc"
| "count_sentiment (a # as) (p, n, u) =
     (let positive_score = count_in positive_words (full_text a);
          negative_score = count_in negative_words (full_text a)
      in if negative_score < positive_score then count_sentiment as (p + 1, n, u)
         else if positive_score < negative_score then count_sentiment as (p, n + 1, u)
         else count_sentiment as (p, n, u + 1))"

record sentiment =
  positive_ratio :: rat
  negative_ratio :: rat
  neutral_ratio :: rat
  sentiment_bias_score :: rat

text \<open>\<open>_analyze_sentiment_bias\<close>: each ratio is \<open>count / total_articles\<close>, or the int 0 for no article.\<close>

definition ratio :: "int \<Rightarrow> nat \<Rightarrow> rat" where
  "ratio c total_articles =
     (if 0 < total_articles then rnd (of_int c / of_nat total_articles) else 0)"

definition analyze_sentiment_bias :: "article list \<Rightarrow> sentiment" where
  "analyze_sentiment_bias articles =
     (let total_articles = length articles
      in case count_sentiment articles (0, 0, 0) of
           (positive_count, negative_count, neutral_count) \<Rightarrow>
             \<lparr>positive_ratio = ratio (int positive_count) total_articles,
              negative_ratio = ratio (int negative_count) total_articles,
              neutral_ratio = ratio (int neutral_count) total_articles,
              sentiment_bias_score =
                ratio (int positive_count - int negative_count) total_articles\<rparr>)"

section \<open>fetchers/newsapi\_fetcher.py\<close>

text \<open>Decimal digits of a status code, for the messages built with f-strings.\<close>

fun show_nat :: "nat \<Rightarrow> string" where
  "show_nat n =
     (if n < 10 then [char_of (48 + n)]
      else show_nat (n div 10) @ [char_of (48 + n mod 10)])"

declare show_nat.simps [simp del]

text \<open>
  The JSON of the news API. A key of an object is missing, \<open>null\<close> or a string; the
  \<open>source\<close> of an article is missing, \<open>null\<close> or an object with a \<open>name\<close> key.
\<close>

datatype jfield = Absent | Null | Str string

datatype jsource = SourceAbsent | SourceNull | SourceObj jfield

record raw_article =
  ra_title :: jfield
  ra_description :: jfield
  ra_content :: jfield
  ra_url :: jfield
  ra_publishedAt :: jfield
  ra_source :: jsource
  ra_author :: jfield
  ra_urlToImage :: jfield

record api_data =
  d_status :: jfield
  d_message :: jfield
  d_articles :: "raw_article list option"
  d_totalResults :: "int option"

text \<open>
  What \<open>requests.get\<close> does for one request: it raises, or it returns a response with a
  status code and a body that \<open>response.json()\<close> parses or fails to parse. The network is
  the sequence of these outcomes, one for each request issued.
\<close>

datatype http_outcome = HttpRaises exn | HttpResponse nat "exn + api_data"

type_synonym network = "nat \<Rightarrow> http_outcome"

datatype event = RateLimit | Request | Sleep nat

text \<open>
  The \<open>except\<close> clauses of \<open>_make_request\<close>: a timeout and a connection error are replaced by
  an \<open>Exception\<close> with a message, every other exception is raised again.
\<close>

fun request_handler :: "exn \<Rightarrow> exn" where
  "request_handler (RequestsTimeout m) =
     Exception ''Request timeout. Please check your internet connection.''"
| "request_handler (RequestsConnectionError m) =
     Exception ''Connection error. Please check your internet connection.''"
| "request_handler e = e"

definition handled :: "exn + 'a \<Rightarrow> exn + 'a" where
  "handled r = (case r of Inl e \<Rightarrow> Inl (request_handler e) | Inr v \<Rightarrow> Inr v)"

text \<open>
  \<open>_make_request\<close>. The first argument is the number of nested calls the interpreter still
  allows (its recursion limit); the third is the number of requests issued so far. The result
  is the returned data or the raised exception, and the trace of the call: \<open>RateLimit\<close> for
  the pacing step \<open>_rate_limit\<close>, \<open>Request\<close> for \<open>requests.get\<close>, \<open>Sleep 60\<close> for
  \<open>time.sleep(60)\<close>. On status 429 the method sleeps and calls itself.
\<close>

fun make_request :: "nat \<Rightarrow> network \<Rightarrow> nat \<Rightarrow> (exn + api_data) \<times> event list" where
  "make_request 0 net i = (Inl RecursionError, [])"
| "make_request (Suc depth) net i =
     (case net i of
        HttpRaises e \<Rightarrow> (Inl (request_handler e), [RateLimit, Request])
      | HttpResponse code body \<Rightarrow>
          if code = 401
          then (Inl (ValueError ''Invalid NewsAPI key. Please check your API key.''),
                [RateLimit, Request])
          else if code = 429
          then (case make_request depth net (Suc i) of
                  (r, evs) \<Rightarrow> (handled r, [RateLimit, Request, Sleep 60] @ evs))
          else if code \<noteq> 200
          then (Inl (Exception (''API request failed with status '' @ show_nat code)),
                [RateLimit, Request])
          else (handled body, [RateLimit, Request]))"

definition is_429 :: "http_outcome \<Rightarrow> bool" where
  "is_429 r = (case r of HttpRaises e \<Rightarrow> False | HttpResponse code body \<Rightarrow> code = 429)"

definition requests_issued :: "event list \<Rightarrow> nat" where
  "requests_issued evs = length (filter (\<lambda>e. e = Request) evs)"

text \<open>\<open>_clean_articles\<close>, one article: \<open>None\<close> when the loop skips it.\<close>

fun jformat :: "jfield \<Rightarrow> string" where
  "jformat Absent = ''''"
| "jformat Null = ''None''"
| "jformat (Str s) = s"

fun jget :: "jfield \<Rightarrow> string \<Rightarrow> pyval" where
  "jget Absent dflt = PStr dflt"
| "jget Null dflt = PNone"
| "jget (Str s) dflt = PStr s"

text \<open>
  \<open>article.get("source", {}).get("name", "Unknown")\<close>; a \<open>null\<close> source has no \<open>get\<close>.
\<close>

fun source_name :: "jsource \<Rightarrow> exn + pyval" where
  "source_name SourceAbsent = Inr (PStr ''Unknown'')"
| "source_name SourceNull = Inl (AttributeError ''get'')"
| "source_name (SourceObj n) = Inr (jget n ''Unknown'')"

definition newlines :: string where
  "newlines = [CHR 0x0A, CHR 0x0A]"

definition clean_article :: "raw_article \<Rightarrow> article option" where
  "clean_article a =
     (if ra_title a = Absent \<or> ra_description a = Absent \<or> ra_content a = Absent then None
      else if ra_content a = Null \<or> ra_content a = Str '''' \<or> ra_content a = Str ''[Removed]''
      then None
      else
        let full_content =
              jformat (ra_title a) @ newlines @ jformat (ra_description a) @ newlines @
              jformat (ra_content a)
        in if length (py_strip full_content) < 100 then None
           else (case (ra_title a, ra_description a) of
                   (Str t, Str d) \<Rightarrow>
                     (case source_name (ra_source a) of
                        Inl e \<Rightarrow> None
                      | Inr nm \<Rightarrow>
                          Some [''title'' \<mapsto> PStr (py_strip t),
                                ''description'' \<mapsto> PStr (py_strip d),
                                ''content'' \<mapsto> PStr full_content,
                                ''url'' \<mapsto> jget (ra_url a) '''',
                                ''published_at'' \<mapsto> jget (ra_publishedAt a) '''',
                                ''source'' \<mapsto> nm,
                                ''author'' \<mapsto> jget (ra_author a) ''Unknown'',
                                ''url_to_image'' \<mapsto> jget (ra_urlToImage a) ''''])
                 | _ \<Rightarrow> None))"

definition clean_articles :: "raw_article list \<Rightarrow> article list" where
  "clean_articles articles = List.map_filter clean_article articles"

text \<open>
  \<open>fetch_news\<close>: the \<open>except\<close> clause logs the error and raises it again. The query, the
  dates and the key go into the request and are not part of the model.
\<close>

definition fetch_news :: "nat \<Rightarrow> network \<Rightarrow> nat \<Rightarrow> (exn + article list) \<times> event list" where
  "fetch_news depth net i =
     (case make_request depth net i of
        (Inl e, evs) \<Rightarrow> (Inl e, evs)
      | (Inr data, evs) \<Rightarrow>
          if d_status data \<noteq> Str ''ok''
          then (Inl (Exception (''NewsAPI error: '' @
                   jformat (case d_message data of Absent \<Rightarrow> Str ''Unknown error'' | m \<Rightarrow> m))),
                evs)
          else (Inr (clean_articles (case d_articles data of None \<Rightarrow> [] | Some as \<Rightarrow> as)),
                evs))"

text \<open>\<open>get_article_count\<close>: every exception is caught and gives 0.\<close>

definition get_article_count :: "nat \<Rightarrow> network \<Rightarrow> nat \<Rightarrow> int \<times> event list" where
  "get_article_count depth net i =
     (case make_request depth net i of
        (Inl e, evs) \<Rightarrow> (0, evs)
      | (Inr data, evs) \<Rightarrow> (case d_totalResults data of None \<Rightarrow> 0 | Some n \<Rightarrow> n, evs))"

section \<open>summarizer/summarizer.py\<close>

definition show_int :: "int \<Rightarrow> string" where
  "show_int n = (if n < 0 then ''-'' @ show_nat (nat (- n)) else show_nat (nat n))"

text \<open>
  What \<open>requests.post\<close> to the generation endpoint does for one call: it raises, or it
  returns a status code and a body whose \<open>response\<close> key is missing, \<open>null\<close> or a string
  (or whose parsing raises). The model server is a function of the number of calls made so
  far and of the prompt.
\<close>

datatype llm_outcome = LlmRaises exn | LlmResponse nat "exn + jfield"

type_synonym llm = "nat \<Rightarrow> string \<Rightarrow> llm_outcome"

fun ollama_handler :: "exn \<Rightarrow> exn" where
  "ollama_handler (RequestsTimeout m) =
     Exception ''Ollama request timeout. The model might be too slow or overloaded.''"
| "ollama_handler (RequestsConnectionError m) =
     Exception (''Cannot connect to Ollama. Make sure it'' @ [CHR 0x27] @ ''s running.'')"
| "ollama_handler e = e"

text \<open>\<open>TextSummarizer._make_request\<close>: every exception is logged and raised again.\<close>

definition summarizer_make_request :: "string \<Rightarrow> llm \<Rightarrow> nat \<Rightarrow> string \<Rightarrow> exn + string" where
  "summarizer_make_request model server i prompt =
     (case server i prompt of
        LlmRaises e \<Rightarrow> Inl (ollama_handler e)
      | LlmResponse code body \<Rightarrow>
          if code = 404
          then Inl (Exception (''Model '' @ [CHR 0x27] @ model @ [CHR 0x27] @
                      '' not found. Please install it with: ollama pull '' @ model))
          else if code \<noteq> 200
          then Inl (Exception (''Ollama request failed with status '' @ show_nat code))
          else (case body of
                  Inl e \<Rightarrow> Inl (ollama_handler e)
                | Inr Absent \<Rightarrow> Inr (py_strip '''')
                | Inr Null \<Rightarrow> Inl (AttributeError ''strip'')
                | Inr (Str s) \<Rightarrow> Inr (py_strip s)))"

text \<open>\<open>validate_summary_length\<close> of utils/validators.py.\<close>

fun validate_summary_length :: "pyval \<Rightarrow> bool" where
  "validate_summary_length PNone = False"
| "validate_summary_length (PStr t) =
     (if t = [] \<or> length (py_strip t) < 50 then False else length t \<le> 10000)"

definition summary_prompt :: "int \<Rightarrow> string \<Rightarrow> string" where
  "summary_prompt max_length truncated_text =
     ''Please provide a concise summary of the following article in under '' @
     show_int max_length @
     '' words. Focus on the main points and key information:'' @ newlines @
     truncated_text @ newlines @ ''Summary:''"

text \<open>
  \<open>summarize_text\<close>: the result is the returned string and the number of calls made to the
  model server afterwards. Every exception of the request is caught.
\<close>

fun summarize_text :: "string \<Rightarrow> llm \<Rightarrow> nat \<Rightarrow> pyval \<Rightarrow> int \<Rightarrow> string \<times> nat" where
  "summarize_text model server i PNone max_length =
     (''Text too short or too long for summarization.'', i)"
| "summarize_text model server i (PStr t) max_length =
     (if \<not> validate_summary_length (PStr t)
      then (''Text too short or too long for summarization.'', i)
      else
        let truncated_text = (if 3000 < length t then take 3000 t else t)
        in case summarizer_make_request model server i (summary_prompt max_length truncated_text) of
             Inl e \<Rightarrow> (''Error generating summary: '' @ exn_str e, Suc i)
           | Inr summary \<Rightarrow>
               if summary = [] then (''Failed to generate summary.'', Suc i)
               else let s = py_strip summary
                    in (if prefix ''Summary:'' s then py_strip (drop 8 s) else s, Suc i))"


text \<open>
  What the loop body evaluates before it calls \<open>summarize_text\<close>: the slice of the title for
  the log line, then \<open>article['content']\<close>.
\<close>

definition attempt_text :: "article \<Rightarrow> exn + pyval" where
  "attempt_text a =
     (case get_default a ''title'' (PStr ''Unknown'') of
        PNone \<Rightarrow> Inl (TypeError not_subscriptable)
      | PStr t \<Rightarrow> subscript a ''content'')"



text \<open>
  The summary an article can get from the loop: the fixed failure message when the body
  raises before the call of \<open>summarize_text\<close>, and otherwise what \<open>summarize_text\<close> returns for
  its content.
\<close>

definition summary_of :: "string \<Rightarrow> llm \<Rightarrow> int \<Rightarrow> article \<Rightarrow> string \<Rightarrow> bool" where
  "summary_of model server max_length a s =
     (case attempt_text a of
        Inl e \<Rightarrow> s = ''Failed to generate summary.''
      | Inr text \<Rightarrow> (\<exists>n. s = fst (summarize_text model server n text max_length)))"

section \<open>bias\_detection/credibility\_scorer.py\<close>

definition known_sources :: "string \<rightharpoonup> string \<times> string \<times> string" where
  "known_sources =
     [''reuters'' \<mapsto> (''high'', ''low'', ''excellent''),
      ''associated press'' \<mapsto> (''high'', ''low'', ''excellent''),
      ''bbc'' \<mapsto> (''high'', ''low'', ''excellent''),
      ''cnn'' \<mapsto> (''medium'', ''moderate'', ''good''),
      ''fox news'' \<mapsto> (''medium'', ''high'', ''mixed''),
      ''msnbc'' \<mapsto> (''medium'', ''moderate'', ''good''),
      ''new york times'' \<mapsto> (''high'', ''low'', ''excellent''),
      ''washington post'' \<mapsto> (''high'', ''low'', ''excellent''),
      ''wall street journal'' \<mapsto> (''high'', ''low'', ''excellent''),
      ''usa today'' \<mapsto> (''medium'', ''low'', ''good'')]"

text \<open>The three score tables, read with \<open>.get(key, 0.5)\<close>.\<close>

definition reputation_scores :: "string \<Rightarrow> rat" where
  "reputation_scores r =
     (if r = ''high'' then rnd (9 / 10) else if r = ''medium'' then rnd (7 / 10)
      else if r = ''low'' then rnd (5 / 10) else rnd (5 / 10))"

definition bias_scores :: "string \<Rightarrow> rat" where
  "bias_scores b =
     (if b = ''low'' then rnd (9 / 10) else if b = ''moderate'' then rnd (7 / 10)
      else if b = ''high'' then rnd (5 / 10) else rnd (5 / 10))"

definition fact_check_scores :: "string \<Rightarrow> rat" where
  "fact_check_scores f =
     (if f = ''excellent'' then rnd (9 / 10) else if f = ''good'' then rnd (7 / 10)
      else if f = ''mixed'' then rnd (5 / 10) else if f = ''poor'' then rnd (3 / 10)
      else rnd (5 / 10))"

definition get_base_reputation_score :: "string \<Rightarrow> rat" where
  "get_base_reputation_score source =
     (case known_sources (py_lower source) of
        Some (reputation, bias, fact_check) \<Rightarrow>
          fadd (fadd (fmul (reputation_scores reputation) (rnd (4 / 10)))
                     (fmul (bias_scores bias) (rnd (3 / 10))))
               (fmul (fact_check_scores fact_check) (rnd (3 / 10)))
      | None \<Rightarrow> rnd (6 / 10))"

definition quality_indicators :: "string list" where
  "quality_indicators =
     [''according to'', ''officials said'', ''confirmed'', ''announced'',
      ''reported'', ''stated'', ''verified'', ''official'']"

definition red_flags :: "string list" where
  "red_flags =
     [''unverified'', ''rumor'', ''allegedly'', ''supposedly'',
      ''anonymous sources'', ''sources say'']"

text \<open>The quality score of one article in \<open>_analyze_recent_performance\<close>.\<close>

definition article_quality :: "article \<Rightarrow> exn + rat" where
  "article_quality a =
     (case content_string a of
        Inl e \<Rightarrow> Inl e
      | Inr content \<Rightarrow>
          let length_score = min (rnd (of_nat (length content) / 1000)) 1;
              indicator_count = count_in quality_indicators (py_lower content);
              indicator_score = min (rnd (of_nat indicator_count / 5)) 1;
              red_flag_count = count_in red_flags (py_lower content);
              red_flag_penalty = fmul (of_nat red_flag_count) (rnd (1 / 10));
              article_score =
                fsub (fadd (fmul length_score (rnd (3 / 10)))
                           (fmul indicator_score (rnd (7 / 10))))
                     red_flag_penalty
          in Inr (max article_score 0))"

fun quality_scores :: "article list \<Rightarrow> exn + rat list" where
  "quality_scores [] = Inr []"
| "quality_scores (a # as) =
     (case article_quality a of
        Inl e \<Rightarrow> Inl e
      | Inr q \<Rightarrow> (case quality_scores as of Inl e \<Rightarrow> Inl e | Inr qs \<Rightarrow> Inr (q # qs)))"

text \<open>\<open>_analyze_recent_performance\<close>: every exception is caught and gives 0.5.\<close>

definition analyze_recent_performance :: "(rat list \<Rightarrow> rat) \<Rightarrow> article list \<Rightarrow> rat" where
  "analyze_recent_performance fsum articles =
     (if articles = [] then 1 / 2
      else case quality_scores articles of
             Inl e \<Rightarrow> 1 / 2
           | Inr qs \<Rightarrow>
               if qs = [] then 1 / 2
               else (case truediv (fsum qs) (of_nat (length qs)) of
                       Inl e \<Rightarrow> 1 / 2
                     | Inr v \<Rightarrow> v))"

text \<open>The tone, the length and the focus keywords of one article.\<close>

definition article_tone :: "string \<Rightarrow> string" where
  "article_tone content =
     (let pos_count = count_in [''positive'', ''good'', ''success'', ''improve''] (py_lower content);
          neg_count = count_in [''negative'', ''bad'', ''problem'', ''crisis''] (py_lower content)
      in if neg_count < pos_count then ''positive''
         else if pos_count < neg_count then ''negative'' else ''neutral'')"

definition focus_keywords :: "string list" where
  "focus_keywords = [''politics'', ''economy'', ''technology'', ''social'', ''international'']"

definition article_focus :: "string \<Rightarrow> string list" where
  "article_focus content = filter (\<lambda>keyword. py_in keyword (py_lower content)) focus_keywords"

text \<open>
  The contents that the loop of \<open>_calculate_consistency_score\<close> reads: the first thing it
  applies to \<open>article.get('content', '')\<close> is \<open>lower()\<close>, which \<open>None\<close> does not have.
\<close>

fun contents :: "article list \<Rightarrow> exn + string list" where
  "contents [] = Inr []"
| "contents (a # as) =
     (case get_default a ''content'' (PStr '''') of
        PNone \<Rightarrow> Inl (AttributeError ''lower'')
      | PStr c \<Rightarrow> (case contents as of Inl e \<Rightarrow> Inl e | Inr cs \<Rightarrow> Inr (c # cs)))"

text \<open>\<open>1.0 - len(set(xs)) / len(xs)\<close>.\<close>

definition distinct_share :: "'a list \<Rightarrow> exn + rat" where
  "distinct_share xs =
     (case truediv (of_nat (length (remdups xs))) (of_nat (length xs)) of
        Inl e \<Rightarrow> Inl e
      | Inr q \<Rightarrow> Inr (fsub 1 q))"

definition consistency_body :: "article list \<Rightarrow> exn + rat" where
  "consistency_body articles =
     (case contents articles of
        Inl e \<Rightarrow> Inl e
      | Inr cs \<Rightarrow>
          let tones = map article_tone cs;
              lengths = map length cs;
              focus_areas = concat (map article_focus cs)
          in case (if tones \<noteq> [] then distinct_share tones else Inr (1 / 2)) of
               Inl e \<Rightarrow> Inl e
             | Inr tone_consistency \<Rightarrow>
           (case (if lengths \<noteq> []
                  then (case truediv (of_nat (Max (set lengths) - Min (set lengths)))
                                     (of_nat (Max (set lengths))) of
                          Inl e \<Rightarrow> Inl e
                        | Inr q \<Rightarrow> Inr (fsub 1 q))
                  else Inr (1 / 2)) of
               Inl e \<Rightarrow> Inl e
             | Inr length_consistency \<Rightarrow>
           (case (if focus_areas \<noteq> [] then distinct_share focus_areas else Inr (1 / 2)) of
               Inl e \<Rightarrow> Inl e
             | Inr focus_consistency \<Rightarrow>
                 Inr (fadd (fadd (fmul tone_consistency (rnd (4 / 10)))
                                 (fmul length_consistency (rnd (3 / 10))))
                           (fmul focus_consistency (rnd (3 / 10)))))))"

text \<open>\<open>_calculate_consistency_score\<close>: every exception is caught and gives 0.5.\<close>

definition calculate_consistency_score :: "article list \<Rightarrow> rat" where
  "calculate_consistency_score articles =
     (if articles = [] then 1 / 2
      else case consistency_body articles of Inl e \<Rightarrow> 1 / 2 | Inr v \<Rightarrow> v)"

definition calculate_overall_credibility :: "rat \<Rightarrow> rat \<Rightarrow> rat \<Rightarrow> rat" where
  "calculate_overall_credibility base_score performance_score consistency_score =
     min (fadd (fadd (fmul base_score (rnd (4 / 10))) (fmul performance_score (rnd (4 / 10))))
               (fmul consistency_score (rnd (2 / 10))))
         1"

definition classify_credibility_level :: "rat \<Rightarrow> string" where
  "classify_credibility_level credibility_score =
     (if rnd (8 / 10) \<le> credibility_score then ''Very High''
      else if rnd (6 / 10) \<le> credibility_score then ''High''
      else if rnd (4 / 10) \<le> credibility_score then ''Medium''
      else if rnd (2 / 10) \<le> credibility_score then ''Low''
      else ''Very Low'')"

record history_entry =
  timestamp :: string
  credibility_score :: rat
  entry_article_count :: nat
  average_article_length :: rat

record source_record =
  history :: "history_entry list"
  average_credibility :: rat
  article_count :: nat
  last_updated :: string

text \<open>\<open>self.credibility_data\<close>: the key \<open>sources\<close> may be missing from a loaded file.\<close>

record credibility_data =
  sources :: "(string \<rightharpoonup> source_record) option"
  data_last_updated :: string

fun content_lengths :: "article list \<Rightarrow> exn + nat list" where
  "content_lengths [] = Inr []"
| "content_lengths (a # as) =
     (case content_string a of
        Inl e \<Rightarrow> Inl e
      | Inr c \<Rightarrow> (case content_lengths as of Inl e \<Rightarrow> Inl e | Inr ns \<Rightarrow> Inr (length c # ns)))"

text \<open>
  The new data point of \<open>_update_source_history\<close>; \<open>now\<close> is the value of
  \<open>datetime.now().isoformat()\<close> during the call.
\<close>

definition make_entry :: "string \<Rightarrow> rat \<Rightarrow> article list \<Rightarrow> exn + history_entry" where
  "make_entry now score articles =
     (if articles \<noteq> []
      then (case content_lengths articles of
              Inl e \<Rightarrow> Inl e
            | Inr ns \<Rightarrow>
                (case truediv (of_nat (sum_list ns)) (of_nat (length articles)) of
                   Inl e \<Rightarrow> Inl e
                 | Inr avg \<Rightarrow>
                     Inr \<lparr>timestamp = now, credibility_score = score,
                          entry_article_count = length articles,
                          average_article_length = avg\<rparr>))
      else Inr \<lparr>timestamp = now, credibility_score = score,
                entry_article_count = length articles, average_article_length = 0\<rparr>)"

text \<open>\<open>history[-10:]\<close> when the history has more than 10 entries.\<close>

definition keep_last_10 :: "'a list \<Rightarrow> 'a list" where
  "keep_last_10 h = (if 10 < length h then drop (length h - 10) h else h)"

definition new_source_record :: "string \<Rightarrow> source_record" where
  "new_source_record now =
     \<lparr>history = [], average_credibility = 0, article_count = 0, last_updated = now\<rparr>"

text \<open>
  \<open>_update_source_history\<close>. An exception is caught and logged, and what was changed before
  it stays changed. \<open>_save_credibility_data\<close> sets the time stamp of the data and writes the
  file; the file is not part of the model.
\<close>

definition update_source_history ::
  "(rat list \<Rightarrow> rat) \<Rightarrow> string \<Rightarrow> string \<Rightarrow> rat \<Rightarrow> article list \<Rightarrow> credibility_data \<Rightarrow>
   credibility_data" where
  "update_source_history fsum now source score articles d =
     (let srcs = (case sources d of None \<Rightarrow> Map.empty | Some m \<Rightarrow> m);
          rec = (case srcs source of None \<Rightarrow> new_source_record now | Some r \<Rightarrow> r);
          srcs1 = srcs(source \<mapsto> rec)
      in case make_entry now score articles of
           Inl e \<Rightarrow> d\<lparr>sources := Some srcs1\<rparr>
         | Inr entry \<Rightarrow>
             let h = keep_last_10 (history rec @ [entry])
             in case truediv (fsum (map credibility_score h)) (of_nat (length h)) of
                  Inl e \<Rightarrow> d\<lparr>sources := Some (srcs1(source \<mapsto> rec\<lparr>history := h\<rparr>))\<rparr>
                | Inr avg \<Rightarrow>
                    d\<lparr>sources :=
                         Some (srcs1(source \<mapsto>
                           rec\<lparr>history := h, average_credibility := avg,
                               article_count := article_count rec + length articles,
                               last_updated := now\<rparr>)),
                      data_last_updated := now\<rparr>)"

record credibility_report =
  report_source :: string
  overall_credibility :: rat
  credibility_level :: string
  base_reputation :: rat
  recent_performance :: rat
  consistency_score :: rat

text \<open>
  \<open>score_source_credibility\<close>: the report (without its list of recommendation texts) and the
  data afterwards. \<open>Inl e\<close> stands for the result \<open>{'error': str(e)}\<close> of the method's own
  \<open>except\<close> clause, which is never reached: each helper catches its own exceptions, and the
  rest of the body does not raise.
\<close>

definition score_source_credibility ::
  "(rat list \<Rightarrow> rat) \<Rightarrow> string \<Rightarrow> string \<Rightarrow> article list \<Rightarrow> credibility_data \<Rightarrow>
   (exn + credibility_report) \<times> credibility_data" where
  "score_source_credibility fsum now source articles d =
     (let base_score = get_base_reputation_score source;
          performance_score = analyze_recent_performance fsum articles;
          consistency = calculate_consistency_score articles;
          overall = calculate_overall_credibility base_score performance_score consistency
      in (Inr \<lparr>report_source = source, overall_credibility = overall,
                credibility_level = classify_credibility_level overall,
                base_reputation = base_score, recent_performance = performance_score,
                consistency_score = consistency\<rparr>,
          update_source_history fsum now source overall articles d))"

text \<open>
  A sequence of calls on one scorer: \<open>score_source_credibility\<close> with the time, the source
  and the articles, or \<open>_update_source_history\<close> with a score as well.
\<close>

datatype call = ScoreCall string string "article list" | UpdateCall string string rat "article list"





definition source_record_of :: "credibility_data \<Rightarrow> string \<Rightarrow> source_record option" where
  "source_record_of d s = (case sources d of None \<Rightarrow> None | Some m \<Rightarrow> m s)"

definition history_of :: "credibility_data \<Rightarrow> string \<Rightarrow> history_entry list" where
  "history_of d s = (case source_record_of d s of None \<Rightarrow> [] | Some r \<Rightarrow> history r)"




section \<open>Concrete environments\<close>

text \<open>
  An environment in which the library calls on an existing index succeed: the splitter
  returns the document as one chunk, loading gives the index, the index appends, saving
  writes the index directory with its two files. \<open>FAISS.from_documents([], ...)\<close> raises
  \<open>IndexError\<close>: there is no embedding to take the dimension of the index from.
\<close>

definition faiss_save_local :: "document list \<Rightarrow> string \<Rightarrow> fs \<Rightarrow> exn + fs" where
  "faiss_save_local s p d =
     (if d p = Some File then Inl (Exception ''FileExistsError'')
      else Inr (d(p \<mapsto> Dir, p @ ''/index.faiss'' \<mapsto> File, p @ ''/index.pkl'' \<mapsto> File)))"

definition nominal_externals :: externals where
  "nominal_externals =
     \<lparr>x_now = ''2024-01-01T00:00:00'',
      x_split = (\<lambda>d. Inr [d]),
      x_load_local = (\<lambda>d. Inr []),
      x_from_documents = Inl (IndexError ''list index out of range''),
      x_add_documents = (\<lambda>s cs. Inr (s @ cs)),
      x_save_local = faiss_save_local\<rparr>"

definition long_text :: string where
  "long_text = ''Officials confirmed the new policy in a statement on Monday.''"

definition good_article :: article where
  "good_article =
     [''title'' \<mapsto> PStr ''Policy'', ''content'' \<mapsto> PStr long_text, ''source'' \<mapsto> PStr ''BBC'',
      ''url'' \<mapsto> PStr ''http://example.org/a'', ''published_at'' \<mapsto> PStr ''2024-01-01'']"


definition data_disk :: fs where
  "data_disk = [''data'' \<mapsto> Dir]"

definition file_at_store_disk :: fs where
  "file_at_store_disk = [''data'' \<mapsto> Dir, ''data/faiss_store'' \<mapsto> File]"

definition stale_chain :: qa_chain where
  "stale_chain = (\<lambda>q. Inr \<lparr>r_result = Some ''An answer from the cleared index.'',
                               r_source_documents = Some []\<rparr>)"

definition loaded_engine :: engine where
  "loaded_engine =
     \<lparr>q_store = Some [\<lparr>page_content = long_text, metadata = good_article\<rparr>],
      q_qa_chain = Some stale_chain\<rparr>"

definition fresh_engine :: engine where
  "fresh_engine = \<lparr>q_store = None, q_qa_chain = None\<rparr>"

definition nominal_load_local :: "fs \<Rightarrow> exn + document list" where
  "nominal_load_local d = Inr []"

definition nominal_from_chain_type :: "document list \<Rightarrow> exn + qa_chain" where
  "nominal_from_chain_type s = Inr stale_chain"

definition store_disk :: fs where
  "store_disk =
     [''data'' \<mapsto> Dir, ''data/faiss_store'' \<mapsto> Dir,
      ''data/faiss_store/index.faiss'' \<mapsto> File, ''data/faiss_store/index.pkl'' \<mapsto> File,
      ''data/ingestion_metadata.json'' \<mapsto> File, ''data/summaries.json'' \<mapsto> File]"


text \<open>Environments in which one library call raises.\<close>

definition failing_split_externals :: externals where
  "failing_split_externals =
     nominal_externals\<lparr>x_split := (\<lambda>d. Inl (ValueError ''chunk size''))\<rparr>"

definition failing_load_externals :: externals where
  "failing_load_externals =
     nominal_externals\<lparr>x_load_local := (\<lambda>d. Inl (Exception ''could not read the index''))\<rparr>"



definition good_document :: document where
  "good_document =
     \<lparr>page_content = long_text,
      metadata = [''title'' \<mapsto> PStr ''Policy'', ''source'' \<mapsto> PStr ''BBC'',
                  ''url'' \<mapsto> PStr ''http://example.org/a'',
                  ''published_at'' \<mapsto> PStr ''2024-01-01'',
                  ''author'' \<mapsto> PStr ''Unknown'',
                  ''ingested_at'' \<mapsto> PStr ''2024-01-01T00:00:00'']\<rparr>"

definition positive_article :: article where
  "positive_article = [''title'' \<mapsto> PStr ''Good news'', ''content'' \<mapsto> PStr ''A great success.'']"

definition negative_article :: article where
  "negative_article = [''title'' \<mapsto> PStr ''Bad news'', ''content'' \<mapsto> PStr ''A terrible loss.'']"

definition neutral_article :: article where
  "neutral_article = [''title'' \<mapsto> PStr ''Weather'', ''content'' \<mapsto> PStr ''Rain is expected.'']"

definition thirty_five_articles :: "article list" where
  "thirty_five_articles =
     replicate 8 positive_article @ replicate 9 negative_article @ replicate 18 neutral_article"

definition ok_data :: api_data where
  "ok_data = \<lparr>d_status = Str ''ok'', d_message = Absent, d_articles = Some [],
              d_totalResults = Some 0\<rparr>"

text \<open>A network that answers 429 twice and then 200.\<close>

definition busy_network :: network where
  "busy_network i =
     (if i < 2 then HttpResponse 429 (Inl (ValueError ''no JSON'')) else HttpResponse 200 (Inr ok_data))"

text \<open>A network that answers 429 once and then 200.\<close>

definition retry_network :: network where
  "retry_network i =
     (if i < 1 then HttpResponse 429 (Inl (ValueError ''no JSON'')) else HttpResponse 200 (Inr ok_data))"

text \<open>A network that rejects the key.\<close>

definition unauthorized_network :: network where
  "unauthorized_network i = HttpResponse 401 (Inl (ValueError ''no JSON''))"




definition none_content_article :: article where
  "none_content_article = [''title'' \<mapsto> PStr ''Wire'', ''content'' \<mapsto> PNone]"

definition empty_data :: credibility_data where
  "empty_data = \<lparr>sources = None, data_last_updated = ''2024-01-01T00:00:00''\<rparr>"


text \<open>A model server that answers every call with status 500.\<close>

definition failing_server :: llm where
  "failing_server i prompt = LlmResponse 500 (Inl (ValueError ''no JSON''))"




text \<open>A chain whose call of the model raises, and an engine that has loaded it.\<close>

definition broken_chain :: qa_chain where
  "broken_chain = (\<lambda>q. Inl (Exception ''Ollama call failed with status code 500''))"

definition broken_engine :: engine where
  "broken_engine = \<lparr>q_store = Some [], q_qa_chain = Some broken_chain\<rparr>"

text \<open>
  A network and a model server that cannot be reached, and a network that answers 200 with an
  error status in the body.
\<close>

definition offline_network :: network where
  "offline_network i = HttpRaises (RequestsConnectionError ''Connection refused'')"

definition offline_server :: llm where
  "offline_server i prompt = LlmRaises (RequestsConnectionError ''Connection refused'')"

definition error_data :: api_data where
  "error_data = \<lparr>d_status = Str ''error'', d_message = Str ''Your API key is missing.'',
                 d_articles = None, d_totalResults = None\<rparr>"

definition error_network :: network where
  "error_network i = HttpResponse 200 (Inr error_data)"

text \<open>A disk without an index on which the path of the metadata file is a directory.\<close>

definition metadata_dir_only_disk :: fs where
  "metadata_dir_only_disk = [''data'' \<mapsto> Dir, ''data/ingestion_metadata.json'' \<mapsto> Dir]"

text \<open>A network that answers 200 with a body that is not JSON.\<close>

definition garbled_network :: network where
  "garbled_network i =
     HttpResponse 200 (Inl (ValueError ''Expecting value: line 1 column 1 (char 0)''))"

section \<open>Clearing: helper lemmas\<close>

lemma clear_files_absent:
  "list_all (\<lambda>p. \<not> path_exists d p) ps \<Longrightarrow> clear_files ps d = (None, d)"
  by (induction ps arbitrary: d) auto

lemma clear_files_keeps_absent:
  "clear_files ps d = (r, d') \<Longrightarrow> \<not> path_exists d q \<Longrightarrow> \<not> path_exists d' q"
proof (induction ps arbitrary: d)
  case Nil
  then show ?case by simp
next
  case (Cons p ps)
  show ?case
  proof (cases "path_exists d p")
    case False
    with Cons show ?thesis by simp
  next
    case True
    show ?thesis
    proof (cases "os_remove p d")
      case (Inl e)
      with True Cons.prems show ?thesis by simp
    next
      case (Inr d1)
      then have "\<not> path_exists d1 q"
        using Cons.prems(2)
        by (auto simp: os_remove_def path_exists_def split: option.splits node.splits)
      with Cons.IH [of d1] Cons.prems(1) True Inr show ?thesis by simp
    qed
  qed
qed

lemma clear_files_removes:
  "clear_files ps d = (None, d') \<Longrightarrow> list_all (\<lambda>p. \<not> path_exists d' p) ps"
proof (induction ps arbitrary: d)
  case Nil
  then show ?case by simp
next
  case (Cons p ps)
  show ?case
  proof (cases "path_exists d p")
    case False
    with Cons.prems have rest: "clear_files ps d = (None, d')" by simp
    from clear_files_keeps_absent [OF rest False] Cons.IH [OF rest]
    show ?thesis by simp
  next
    case True
    show ?thesis
    proof (cases "os_remove p d")
      case (Inl e)
      with True Cons.prems show ?thesis by simp
    next
      case (Inr d1)
      with True Cons.prems have rest: "clear_files ps d1 = (None, d')" by simp
      have "\<not> path_exists d1 p"
        using Inr by (auto simp: os_remove_def path_exists_def split: option.splits node.splits)
      from clear_files_keeps_absent [OF rest this] Cons.IH [OF rest]
      show ?thesis by simp
    qed
  qed
qed

lemma rmtree_removes: "rmtree p d = Inr d' \<Longrightarrow> \<not> path_exists d' p"
  by (auto simp: rmtree_def path_exists_def split: option.splits node.splits)

lemma clear_success_absent:
  assumes "clear_vector_store sp d = (True, d')"
  shows "store_absent sp d'"
proof (cases "path_exists d sp")
  case True
  from assms True obtain d1 where r: "rmtree sp d = Inr d1"
    and c: "clear_files metadata_files d1 = (None, d')"
    by (auto simp: clear_vector_store_def split: sum.splits prod.splits option.splits)
  from clear_files_keeps_absent [OF c rmtree_removes [OF r]] clear_files_removes [OF c]
  show ?thesis by (simp add: store_absent_def)
next
  case False
  with assms have c: "clear_files metadata_files d = (None, d')"
    by (auto simp: clear_vector_store_def split: prod.splits option.splits)
  from clear_files_keeps_absent [OF c False] clear_files_removes [OF c]
  show ?thesis by (simp add: store_absent_def)
qed

lemma clear_on_absent:
  "store_absent sp d \<Longrightarrow> clear_vector_store sp d = (True, d)"
  by (simp add: store_absent_def clear_vector_store_def clear_files_absent)

lemma clear_files_again:
  "clear_files ps d = (r, d') \<Longrightarrow> clear_files ps d' = (r, d')"
proof (induction ps arbitrary: d)
  case Nil
  then show ?case by simp
next
  case (Cons p ps)
  show ?case
  proof (cases "path_exists d p")
    case False
    with Cons.prems have rest: "clear_files ps d = (r, d')" by simp
    from clear_files_keeps_absent [OF rest False] Cons.IH [OF rest]
    show ?thesis by simp
  next
    case True
    show ?thesis
    proof (cases "os_remove p d")
      case (Inl e)
      with True Cons.prems show ?thesis by auto
    next
      case (Inr d1)
      with True Cons.prems have rest: "clear_files ps d1 = (r, d')" by simp
      have "\<not> path_exists d1 p"
        using Inr by (auto simp: os_remove_def path_exists_def split: option.splits node.splits)
      from clear_files_keeps_absent [OF rest this] Cons.IH [OF rest]
      show ?thesis by simp
    qed
  qed
qed

lemma clear_again:
  "clear_vector_store sp (snd (clear_vector_store sp d)) = clear_vector_store sp d"
proof (cases "path_exists d sp")
  case False
  obtain r d' where c: "clear_files metadata_files d = (r, d')"
    by (cases "clear_files metadata_files d")
  from clear_files_keeps_absent [OF c False] clear_files_again [OF c] c False
  show ?thesis by (cases r) (simp_all add: clear_vector_store_def)
next
  case True
  show ?thesis
  proof (cases "rmtree sp d")
    case (Inl e)
    with True show ?thesis by (simp add: clear_vector_store_def)
  next
    case (Inr d1)
    obtain r d' where c: "clear_files metadata_files d1 = (r, d')"
      by (cases "clear_files metadata_files d1")
    from clear_files_keeps_absent [OF c rmtree_removes [OF Inr]] clear_files_again [OF c] c True Inr
    show ?thesis by (cases r) (simp_all add: clear_vector_store_def)
  qed
qed

section \<open>Ingestion: validation\<close>

lemma check_required_spec:
  "check_required fs a =
     list_all (\<lambda>f. case a f of Some (PStr s) \<Rightarrow> s \<noteq> [] | _ \<Rightarrow> False) fs"
  by (induction fs) (auto split: option.splits pyval.splits)

lemma validate_article_spec: "validate_article a = Inr (spec_valid_article a)"
proof (cases "check_required required_fields a")
  case False
  then show ?thesis
    by (simp add: validate_article_def spec_valid_article_def check_required_spec)
next
  case True
  then have "case a ''content'' of Some (PStr s) \<Rightarrow> s \<noteq> [] | _ \<Rightarrow> False"
    by (simp add: check_required_spec required_fields_def)
  then obtain c where c: "a ''content'' = Some (PStr c)"
    by (auto split: option.splits pyval.splits)
  with True show ?thesis
    by (auto simp: validate_article_def spec_valid_article_def check_required_spec subscript_def)
qed

lemma collect_valid_spec: "collect_valid articles = Inr (filter spec_valid_article articles)"
  by (induction articles) (simp_all add: validate_article_spec)




lemma good_valid: "spec_valid_article good_article"
  by (simp add: spec_valid_article_def good_article_def required_fields_def long_text_def
      py_strip_def py_isspace_def)





section \<open>Clearing the store twice\<close>

text \<open>
  C10 (as amended). On a missing store \<open>clear_vector_store\<close> deletes nothing and returns
  \<open>True\<close>; a second run in a row returns what the first returned and leaves the disk as the
  first left it; and a run that returns \<open>True\<close> leaves a missing store, so that the second
  run returns \<open>True\<close> as well.
\<close>

theorem clear_vector_store_idempotent:
  "(store_absent sp d \<longrightarrow> clear_vector_store sp d = (True, d)) \<and>
   clear_vector_store sp (snd (clear_vector_store sp d)) = clear_vector_store sp d \<and>
   (fst (clear_vector_store sp d) \<longrightarrow> store_absent sp (snd (clear_vector_store sp d)))"
  using clear_on_absent [of sp d] clear_again [of sp d]
    clear_success_absent [of sp d "snd (clear_vector_store sp d)"]
  by (cases "clear_vector_store sp d") auto

theorem clear_vector_store_idempotent_witness:
  "store_absent ''data/faiss_store'' data_disk \<and>
   clear_vector_store ''data/faiss_store'' data_disk = (True, data_disk) \<and>
   fst (clear_vector_store ''data/faiss_store'' data_disk) \<and>
   store_absent ''data/faiss_store'' (snd (clear_vector_store ''data/faiss_store'' data_disk))"
proof -
  have a: "store_absent ''data/faiss_store'' data_disk"
    by (simp add: store_absent_def path_exists_def metadata_files_def data_disk_def)
  from a clear_vector_store_idempotent [of "''data/faiss_store''" data_disk]
  show ?thesis by simp
qed

text \<open>
  With a regular file at the store path \<open>shutil.rmtree\<close> raises, and both runs return
  \<open>False\<close>.
\<close>

theorem clear_vector_store_twice_false:
  "\<not> (fst (clear_vector_store ''data/faiss_store'' file_at_store_disk) \<and>
      fst (clear_vector_store ''data/faiss_store''
             (snd (clear_vector_store ''data/faiss_store'' file_at_store_disk))))"
  by (simp add: clear_vector_store_def path_exists_def rmtree_def file_at_store_disk_def)

section \<open>Querying\<close>

text \<open>
  C4. When no chain is loaded, \<open>query\<close> returns the explicit not-loaded error result; and in
  every state of the engine and for every question it returns a result: an exception raised
  by the chain is caught and becomes an error result.
\<close>

theorem query_never_raises:
  "(q_qa_chain eng = None \<longrightarrow>
      query eng question =
        Inr (QError ''Knowledge base not loaded. Please fetch some articles first.'')) \<and>
   (\<exists>r. query eng question = Inr r)"
  by (auto simp: query_def query_body_def split: sum.splits option.splits)

theorem query_never_raises_witness:
  "q_qa_chain fresh_engine = None \<and>
   query fresh_engine ''What happened?'' =
     Inr (QError ''Knowledge base not loaded. Please fetch some articles first.'') \<and>
   (\<exists>r. query fresh_engine ''What happened?'' = Inr r)"
proof -
  have h: "q_qa_chain fresh_engine = None" by (simp add: fresh_engine_def)
  from h query_never_raises [of fresh_engine "''What happened?''"]
  show ?thesis by simp
qed

section \<open>Clearing, then loading\<close>

text \<open>
  After a successful clear the store path and the metadata files are gone, and the load step
  logs the not-found warning and returns the engine as it was.
\<close>

lemma load_after_clear:
  assumes "clear_vector_store sp d = (True, d')"
  shows "\<not> path_exists d' sp \<and> list_all (\<lambda>p. \<not> path_exists d' p) metadata_files \<and>
         load_vector_store ll fc sp d' eng =
           ([Warning (''Vector store not found at '' @ sp)], eng)"
  using clear_success_absent [OF assms]
  by (simp add: store_absent_def load_vector_store_def)

lemma clear_store_disk:
  "clear_vector_store ''data/faiss_store'' store_disk =
     (True, [''data'' \<mapsto> Dir, ''data/summaries.json'' \<mapsto> File])"
  by (auto simp: clear_vector_store_def store_disk_def path_exists_def rmtree_def
      metadata_files_def os_remove_def under_def fun_eq_iff)

text \<open>
  C5. An engine that has loaded the store, a successful clear, then the load step: the
  directory is gone and the load step reports not found, but the engine keeps its store and
  its chain, and \<open>query\<close> still answers from them.
\<close>

theorem clear_then_load_keeps_loaded_store:
  "fst (clear_vector_store ''data/faiss_store'' store_disk) \<and>
   \<not> path_exists (snd (clear_vector_store ''data/faiss_store'' store_disk))
       ''data/faiss_store'' \<and>
   load_vector_store nominal_load_local nominal_from_chain_type ''data/faiss_store''
       (snd (clear_vector_store ''data/faiss_store'' store_disk)) loaded_engine
     = ([Warning ''Vector store not found at data/faiss_store''], loaded_engine) \<and>
   q_store loaded_engine \<noteq> None \<and>
   query loaded_engine ''What happened?'' =
     Inr (QAnswer ''An answer from the cleared index.'' [])"
  by (simp add: clear_store_disk load_vector_store_def path_exists_def loaded_engine_def
      query_def query_body_def stale_chain_def)

section \<open>Ingestion: failures\<close>

text \<open>
  The flag returned by \<open>ingest_documents\<close>, in terms of the library calls it makes: the index
  is loaded when the store path exists and created otherwise.
\<close>

lemma ingest_flag:
  "fst (ingest_documents x sp st articles) =
     (\<exists>valid docs chunks s s' d'.
         valid \<noteq> [] \<and>
         collect_valid articles = Inr valid \<and>
         create_documents (x_now x) valid = Inr docs \<and>
         split_all x docs = Inr chunks \<and>
         (if path_exists (i_disk st) sp then x_load_local x (i_disk st)
          else x_from_documents x) = Inr s \<and>
         x_add_documents x s chunks = Inr s' \<and>
         x_save_local x s' sp (i_disk st) = Inr d')"
proof (cases "articles = []")
  case True
  then show ?thesis by (auto simp: ingest_documents_def)
next
  case False
  then show ?thesis
    by (auto simp: ingest_documents_def load_or_create_store_def Let_def
        split: if_splits sum.splits option.splits prod.splits)
qed


lemma good_documents:
  "create_documents ''2024-01-01T00:00:00'' [good_article] = Inr [good_document]"
  by (simp add: make_document_def create_metadata_def subscript_def good_article_def
      good_document_def get_default_def)




section \<open>Rounding\<close>

lemma round_half_even_err: "\<bar>of_int (round_half_even y) - y\<bar> \<le> 1 / 2"
proof -
  have "of_int \<lfloor>y\<rfloor> \<le> y" "y < of_int \<lfloor>y\<rfloor> + 1" by linarith+
  then show ?thesis
    by (auto simp: round_half_even_def Let_def abs_le_iff)
qed

lemma ilog2_le:
  assumes "x \<noteq> 0"
  shows "2 powi (ilog2 x) \<le> \<bar>x\<bar>"
proof -
  obtain a b where q: "quotient_of \<bar>x\<bar> = (a, b)" by (cases "quotient_of \<bar>x\<bar>")
  then have b: "0 < b" and x: "\<bar>x\<bar> = of_int a / of_int b"
    using quotient_of_denom_pos quotient_of_div by blast+
  from assms have "0 < \<bar>x\<bar>" by simp
  with x b have a: "0 < a" by (simp add: zero_less_divide_iff)
  define la where "la = floorlog 2 (nat a)"
  define lb where "lb = floorlog 2 (nat b)"
  have la: "2 ^ (la - 1) \<le> nat a" and lb: "nat b < 2 ^ lb"
    using floorlog_bounds [of "nat a" 2] floorlog_bounds [of "nat b" 2] a b
    by (simp_all add: la_def lb_def)
  have la1: "1 \<le> la" using a by (simp add: la_def floorlog_def)
  show ?thesis
  proof (cases "2 powi (int la - int lb) \<le> \<bar>x\<bar>")
    case True
    then show ?thesis by (simp add: ilog2_def q la_def lb_def)
  next
    case False
    then have e: "ilog2 x = int la - int lb - 1" by (simp add: ilog2_def q la_def lb_def)
    have "(2::rat) ^ (la - 1) \<le> of_int a"
    proof -
      from la have "(2::int) ^ (la - 1) \<le> a" using a
        by (metis int_nat_eq less_imp_le_nat nat_int numeral_power_eq_of_nat_cancel_iff of_nat_le_iff order_less_imp_le zle_int)
      then have "of_int ((2::int) ^ (la - 1)) \<le> (of_int a :: rat)" by (simp only: of_int_le_iff)
      then show ?thesis by simp
    qed
    moreover have "(of_int b :: rat) \<le> 2 ^ lb"
    proof -
      from lb have "b \<le> 2 ^ lb" using b by (simp add: nat_less_iff)
      then have "(of_int b :: rat) \<le> of_int (2 ^ lb)" by (simp only: of_int_le_iff)
      then show ?thesis by simp
    qed
    ultimately have "(2::rat) ^ (la - 1) / 2 ^ lb \<le> of_int a / of_int b"
      using a b by (intro frac_le) auto
    moreover have "(2::rat) powi (int la - int lb - 1) = 2 ^ (la - 1) / 2 ^ lb"
    proof -
      obtain k where k: "la = Suc k" using la1 by (cases la) auto
      have "int la - int lb - 1 = int k - int lb" by (simp add: k)
      then have "(2::rat) powi (int la - int lb - 1) = 2 powi (int k - int lb)"
        by (rule arg_cong)
      also have "\<dots> = 2 ^ k / 2 ^ lb" by (simp add: power_int_diff)
      finally show ?thesis by (simp add: k)
    qed
    ultimately show ?thesis by (simp add: e x)
  qed
qed

lemma rnd_err: "\<bar>rnd x - x\<bar> \<le> \<bar>x\<bar> / 2 ^ 53"
proof (cases "x = 0")
  case True
  then show ?thesis by (simp add: rnd_def)
next
  case False
  define scale :: rat where "scale = 2 powi (ilog2 x - 52)"
  define y where "y = \<bar>x\<bar> / scale"
  define m where "m = round_half_even y"
  have sp: "0 < scale" by (simp add: scale_def)
  have r: "rnd x = sgn x * of_int m * scale"
    using False by (simp add: rnd_def scale_def y_def m_def Let_def)
  have x: "x = sgn x * y * scale" using sp by (simp add: y_def sgn_mult_abs)
  have "rnd x - x = sgn x * (of_int m - y) * scale"
    by (subst r, subst (2) x) (simp add: algebra_simps)
  then have "\<bar>rnd x - x\<bar> = \<bar>of_int m - y\<bar> * scale"
    using False sp by (simp add: abs_mult abs_sgn_eq)
  also have "\<dots> \<le> 1 / 2 * scale"
    using round_half_even_err [of y] sp by (simp add: m_def mult_right_mono)
  also have "1 / 2 * scale = 2 powi (ilog2 x) / 2 ^ 53"
  proof -
    have "(2::rat) powi (ilog2 x - 52) = 2 powi (ilog2 x) / 2 powi 52"
      by (simp add: power_int_diff)
    then show ?thesis by (simp add: scale_def)
  qed
  also have "\<dots> \<le> \<bar>x\<bar> / 2 ^ 53"
    using ilog2_le [OF False] by (simp add: divide_right_mono)
  finally show ?thesis .
qed



lemma ilog2_less:
  assumes "x \<noteq> 0"
  shows "\<bar>x\<bar> < 2 powi (ilog2 x + 1)"
proof -
  obtain a b where q: "quotient_of \<bar>x\<bar> = (a, b)" by (cases "quotient_of \<bar>x\<bar>")
  then have b: "0 < b" and x: "\<bar>x\<bar> = of_int a / of_int b"
    using quotient_of_denom_pos quotient_of_div by blast+
  from assms have "0 < \<bar>x\<bar>" by simp
  with x b have a: "0 < a" by (simp add: zero_less_divide_iff)
  define la where "la = floorlog 2 (nat a)"
  define lb where "lb = floorlog 2 (nat b)"
  have la: "nat a < 2 ^ la" and lb: "2 ^ (lb - 1) \<le> nat b"
    using floorlog_bounds [of "nat a" 2] floorlog_bounds [of "nat b" 2] a b
    by (simp_all add: la_def lb_def)
  have lb1: "1 \<le> lb" using b by (simp add: lb_def floorlog_def)
  show ?thesis
  proof (cases "2 powi (int la - int lb) \<le> \<bar>x\<bar>")
    case False
    then show ?thesis by (simp add: ilog2_def q la_def lb_def)
  next
    case True
    then have e: "ilog2 x = int la - int lb" by (simp add: ilog2_def q la_def lb_def)
    have A: "(of_int a :: rat) < 2 ^ la"
    proof -
      from la have "a < 2 ^ la" using a by (simp add: nat_less_iff)
      then have "(of_int a :: rat) < of_int (2 ^ la)" by (simp only: of_int_less_iff)
      then show ?thesis by simp
    qed
    have B: "(2::rat) ^ (lb - 1) \<le> of_int b"
    proof -
      from lb have "(2::int) ^ (lb - 1) \<le> b" using b
        by (metis int_nat_eq less_imp_le_nat nat_int numeral_power_eq_of_nat_cancel_iff of_nat_le_iff order_less_imp_le zle_int)
      then have "of_int ((2::int) ^ (lb - 1)) \<le> (of_int b :: rat)" by (simp only: of_int_le_iff)
      then show ?thesis by simp
    qed
    have "of_int a / of_int b < (2::rat) ^ la / 2 ^ (lb - 1)"
      using A B a b by (intro frac_less) auto
    moreover have "(2::rat) powi (int la - int lb + 1) = 2 ^ la / 2 ^ (lb - 1)"
    proof -
      obtain k where k: "lb = Suc k" using lb1 by (cases lb) auto
      have "int la - int lb + 1 = int la - int k" by (simp add: k)
      then have "(2::rat) powi (int la - int lb + 1) = 2 powi (int la - int k)"
        by (rule arg_cong)
      also have "\<dots> = 2 ^ la / 2 ^ k" by (simp add: power_int_diff)
      finally show ?thesis by (simp add: k)
    qed
    ultimately show ?thesis by (simp add: e x)
  qed
qed

lemma ilog2_eqI:
  assumes "2 powi e \<le> \<bar>x\<bar>" "\<bar>x\<bar> < 2 powi (e + 1)"
  shows "ilog2 x = e"
proof -
  have "(0::rat) < 2 powi e" by simp
  with assms(1) have "0 < \<bar>x\<bar>" by linarith
  then have x: "x \<noteq> 0" by simp
  from ilog2_le [OF x] assms(2) have "(2::rat) powi (ilog2 x) < 2 powi (e + 1)" by simp
  then have 1: "ilog2 x < e + 1"
    using power_int_increasing [of "e + 1" "ilog2 x" "2::rat"] by (cases "ilog2 x < e + 1") auto
  from ilog2_less [OF x] assms(1) have "(2::rat) powi e < 2 powi (ilog2 x + 1)" by simp
  then have 2: "e < ilog2 x + 1"
    using power_int_increasing [of "ilog2 x + 1" e "2::rat"] by (cases "e < ilog2 x + 1") auto
  from 1 2 show ?thesis by simp
qed

lemma round_half_even_eqI:
  assumes "\<bar>y - of_int m\<bar> < 1 / 2"
  shows "round_half_even y = m"
proof -
  from assms have y: "of_int m - 1 / 2 < y" "y < of_int m + 1 / 2" by linarith+
  have "\<lfloor>y\<rfloor> = m \<or> \<lfloor>y\<rfloor> = m - 1"
  proof -
    from y have "of_int (m - 1) \<le> y" "y < of_int (m + 1)" by simp_all
    then have "m - 1 \<le> \<lfloor>y\<rfloor>" "\<lfloor>y\<rfloor> < m + 1"
      by (simp_all only: le_floor_iff floor_less_iff)
    then show ?thesis by auto
  qed
  then show ?thesis
  proof
    assume f: "\<lfloor>y\<rfloor> = m"
    with y show ?thesis by (simp add: round_half_even_def Let_def)
  next
    assume f: "\<lfloor>y\<rfloor> = m - 1"
    with y show ?thesis by (auto simp: round_half_even_def Let_def)
  qed
qed

lemma rnd_eqI:
  assumes "0 < x" "2 powi e \<le> x" "x < 2 powi (e + 1)"
    "\<bar>x / 2 powi (e - 52) - of_int m\<bar> < 1 / 2"
  shows "rnd x = of_int m * 2 powi (e - 52)"
proof -
  from assms have e: "ilog2 x = e" by (intro ilog2_eqI) simp_all
  from assms(1,4) have "round_half_even (\<bar>x\<bar> / 2 powi (e - 52)) = m"
    by (intro round_half_even_eqI) simp
  with assms(1) show ?thesis by (simp add: rnd_def e Let_def)
qed


lemma round_half_even_tie:
  assumes "y = of_int f + 1 / 2"
  shows "round_half_even y = (if even f then f else f + 1)"
proof -
  have "\<lfloor>y\<rfloor> = f" unfolding assms by (simp add: floor_unique)
  then show ?thesis by (simp add: round_half_even_def assms)
qed

lemma rnd_eval:
  assumes "0 < x" "2 powi e \<le> x" "x < 2 powi (e + 1)"
  shows "rnd x = of_int (round_half_even (x / 2 powi (e - 52))) * 2 powi (e - 52)"
proof -
  from assms have e: "ilog2 x = e" by (intro ilog2_eqI) simp_all
  with assms(1) show ?thesis by (simp add: rnd_def Let_def)
qed

text \<open>
  A number within \<open>9 / 2 ^ 55\<close> of 1 is rounded to a float within \<open>1 / 2 ^ 52\<close> of 1, so
  three numbers that are not negative and add up to 1 within \<open>1 / 2 ^ 53\<close> add up, as
  floats, to 1 within \<open>1 / 2 ^ 52\<close>.
\<close>

lemma rnd_nonneg: "0 \<le> x \<Longrightarrow> 0 \<le> rnd x"
proof -
  assume x: "0 \<le> x"
  have "\<bar>rnd x - x\<bar> \<le> \<bar>x\<bar> / 2 ^ 53" by (rule rnd_err)
  moreover have "x / 2 ^ 53 \<le> x" using x by (simp add: field_simps)
  ultimately show ?thesis using x by linarith
qed

lemma rnd_near_one:
  assumes "\<bar>x - 1\<bar> \<le> 9 / 2 ^ 55"
  shows "\<bar>rnd x - 1\<bar> \<le> 1 / 2 ^ 52"
proof (cases "1 \<le> x")
  from assms have a: "\<bar>x - 1\<bar> \<le> 9 / 36028797018963968" by simp
  case True
  define m where "m = round_half_even (x / 2 powi (0 - 52))"
  from True assms have x: "0 < x" "2 powi 0 \<le> x" "x < 2 powi (0 + 1)" by simp_all
  from rnd_eval [OF x] have r: "rnd x = of_int m * 2 powi (0 - 52)" by (simp add: m_def)
  have y: "x / 2 powi (0 - 52) = x * 4503599627370496" by (simp add: power_int_minus)
  from round_half_even_err [of "x / 2 powi (0 - 52)"]
  have e: "\<bar>of_int m - x * 4503599627370496\<bar> \<le> 1 / 2" by (simp add: m_def y)
  from True a have b: "4503599627370496 \<le> x * 4503599627370496"
    "x * 4503599627370496 \<le> 4503599627370496 + 9 / 8" by linarith+
  from e b have "(4503599627370495 :: rat) < of_int m"
    "(of_int m :: rat) < 4503599627370498" by linarith+
  then have "4503599627370495 < m" "m < 4503599627370498" by simp_all
  then have "4503599627370496 \<le> m" "m \<le> 4503599627370497" by simp_all
  then have "(4503599627370496 :: rat) \<le> of_int m"
    "(of_int m :: rat) \<le> 4503599627370497" by simp_all
  then show ?thesis by (simp add: r power_int_minus field_simps)
next
  case False
  define m where "m = round_half_even (x / 2 powi (- 1 - 52))"
  from False assms have x: "0 < x" "2 powi (- 1) \<le> x" "x < 2 powi (- 1 + 1)"
    by (simp_all add: power_int_minus)
  from rnd_eval [OF x] have r: "rnd x = of_int m * 2 powi (- 1 - 52)" by (simp add: m_def)
  have y: "x / 2 powi (- 1 - 52) = x * 9007199254740992" by (simp add: power_int_minus)
  from round_half_even_err [of "x / 2 powi (- 1 - 52)"]
  have e: "\<bar>of_int m - x * 9007199254740992\<bar> \<le> 1 / 2" by (simp add: m_def y)
  from assms have a: "\<bar>x - 1\<bar> \<le> 9 / 36028797018963968" by simp
  from False a have b: "9007199254740992 - 9 / 4 \<le> x * 9007199254740992"
    "x * 9007199254740992 \<le> 9007199254740992" by linarith+
  from e b have "(9007199254740989 :: rat) < of_int m"
    "(of_int m :: rat) < 9007199254740993" by linarith+
  then have "9007199254740989 < m" "m < 9007199254740993" by simp_all
  then have "9007199254740990 \<le> m" "m \<le> 9007199254740992" by simp_all
  then have "(9007199254740990 :: rat) \<le> of_int m"
    "(of_int m :: rat) \<le> 9007199254740992" by simp_all
  then show ?thesis by (simp add: r power_int_minus field_simps)
qed

lemma float_sum_near_one:
  assumes "0 \<le> a" "0 \<le> b" "0 \<le> c" "\<bar>a + b + c - 1\<bar> \<le> 1 / 2 ^ 53"
  shows "\<bar>fadd (fadd a b) c - 1\<bar> \<le> 1 / 2 ^ 52"
proof -
  from assms have ab: "a + b \<le> 1 + 1 / 2 ^ 53" by linarith
  from rnd_err [of "a + b"] assms(1,2) have "\<bar>rnd (a + b) - (a + b)\<bar> \<le> (a + b) / 2 ^ 53"
    by simp
  also have "\<dots> \<le> (1 + 1 / 2 ^ 53) / 2 ^ 53" using ab by (intro divide_right_mono) simp_all
  finally have "\<bar>rnd (a + b) - (a + b)\<bar> \<le> (1 + 1 / 2 ^ 53) / 2 ^ 53" .
  with assms(4) have "\<bar>rnd (a + b) + c - 1\<bar> \<le> (1 + 1 / 2 ^ 53) / 2 ^ 53 + 1 / 2 ^ 53"
    by linarith
  also have "\<dots> \<le> 9 / 2 ^ 55" by simp
  finally show ?thesis unfolding fadd_def by (rule rnd_near_one)
qed

section \<open>Sentiment ratios\<close>

lemma count_sentiment_total:
  "count_sentiment as (p, n, u) = (p', n', u') \<Longrightarrow> p' + n' + u' = p + n + u + length as"
  by (induction as arbitrary: p n u) (auto simp: Let_def split: if_splits)

text \<open>
  C8 (as amended). For a non-empty list every article falls in exactly one of the three
  buckets, so the counts add up to the number of articles; each ratio is the float nearest to
  its count divided by that number; the three ratios add up to 1 within \<open>1 / 2 ^ 53\<close> as
  exact numbers, and within \<open>1 / 2 ^ 52\<close> when they are added as floats, in each of the
  three orders of addition.
\<close>

theorem sentiment_ratios_sum:
  assumes "articles \<noteq> []"
  shows "(case count_sentiment articles (0, 0, 0) of
           (p, n, u) \<Rightarrow>
             p + n + u = length articles \<and>
             positive_ratio (analyze_sentiment_bias articles)
               = rnd (of_nat p / of_nat (length articles)) \<and>
             negative_ratio (analyze_sentiment_bias articles)
               = rnd (of_nat n / of_nat (length articles)) \<and>
             neutral_ratio (analyze_sentiment_bias articles)
               = rnd (of_nat u / of_nat (length articles))) \<and>
         \<bar>positive_ratio (analyze_sentiment_bias articles)
            + negative_ratio (analyze_sentiment_bias articles)
            + neutral_ratio (analyze_sentiment_bias articles) - 1\<bar> \<le> 1 / 2 ^ 53 \<and>
         \<bar>fadd (fadd (positive_ratio (analyze_sentiment_bias articles))
                     (negative_ratio (analyze_sentiment_bias articles)))
               (neutral_ratio (analyze_sentiment_bias articles)) - 1\<bar> \<le> 1 / 2 ^ 52 \<and>
         \<bar>fadd (fadd (positive_ratio (analyze_sentiment_bias articles))
                     (neutral_ratio (analyze_sentiment_bias articles)))
               (negative_ratio (analyze_sentiment_bias articles)) - 1\<bar> \<le> 1 / 2 ^ 52 \<and>
         \<bar>fadd (fadd (negative_ratio (analyze_sentiment_bias articles))
                     (neutral_ratio (analyze_sentiment_bias articles)))
               (positive_ratio (analyze_sentiment_bias articles)) - 1\<bar> \<le> 1 / 2 ^ 52"
proof -
  obtain p n u where c: "count_sentiment articles (0, 0, 0) = (p, n, u)"
    by (cases "count_sentiment articles (0, 0, 0)") auto
  define len :: rat where "len = of_nat (length articles)"
  from assms have len: "0 < len" by (simp add: len_def)
  from count_sentiment_total [OF c] have tot: "p + n + u = length articles" by simp
  then have "(of_nat p + of_nat n + of_nat u :: rat) = len"
    unfolding len_def by (metis of_nat_add)
  then have one: "(of_nat p / len + of_nat n / len + of_nat u / len :: rat) = 1"
    using len by (simp add: add_divide_distrib [symmetric])
  have r: "positive_ratio (analyze_sentiment_bias articles) = rnd (of_nat p / len)"
    "negative_ratio (analyze_sentiment_bias articles) = rnd (of_nat n / len)"
    "neutral_ratio (analyze_sentiment_bias articles) = rnd (of_nat u / len)"
    using assms by (simp_all add: analyze_sentiment_bias_def c ratio_def len_def Let_def)
  have "\<bar>rnd (of_nat p / len) + rnd (of_nat n / len) + rnd (of_nat u / len) - 1\<bar>
        = \<bar>(rnd (of_nat p / len) - of_nat p / len) + (rnd (of_nat n / len) - of_nat n / len)
           + (rnd (of_nat u / len) - of_nat u / len)\<bar>"
    using one by (simp add: algebra_simps)
  also have "\<dots> \<le> \<bar>of_nat p / len\<bar> / 2 ^ 53 + \<bar>of_nat n / len\<bar> / 2 ^ 53
                   + \<bar>of_nat u / len\<bar> / 2 ^ 53"
    using rnd_err [of "of_nat p / len"] rnd_err [of "of_nat n / len"]
      rnd_err [of "of_nat u / len"] by linarith
  also have "\<dots> = (of_nat p / len + of_nat n / len + of_nat u / len) / 2 ^ 53"
    using len by (simp add: add_divide_distrib)
  also have "\<dots> = 1 / 2 ^ 53" by (simp only: one)
  finally have exact:
    "\<bar>rnd (of_nat p / len) + rnd (of_nat n / len) + rnd (of_nat u / len) - 1\<bar> \<le> 1 / 2 ^ 53" .
  have nonneg: "0 \<le> rnd (of_nat p / len)" "0 \<le> rnd (of_nat n / len)"
    "0 \<le> rnd (of_nat u / len)"
    using len by (simp_all add: rnd_nonneg)
  from exact
  have exact2:
    "\<bar>rnd (of_nat p / len) + rnd (of_nat u / len) + rnd (of_nat n / len) - 1\<bar> \<le> 1 / 2 ^ 53"
    "\<bar>rnd (of_nat n / len) + rnd (of_nat u / len) + rnd (of_nat p / len) - 1\<bar> \<le> 1 / 2 ^ 53"
    by (simp_all add: add.commute add.left_commute)
  have floats:
    "\<bar>fadd (fadd (rnd (of_nat p / len)) (rnd (of_nat n / len))) (rnd (of_nat u / len)) - 1\<bar>
       \<le> 1 / 2 ^ 52"
    "\<bar>fadd (fadd (rnd (of_nat p / len)) (rnd (of_nat u / len))) (rnd (of_nat n / len)) - 1\<bar>
       \<le> 1 / 2 ^ 52"
    "\<bar>fadd (fadd (rnd (of_nat n / len)) (rnd (of_nat u / len))) (rnd (of_nat p / len)) - 1\<bar>
       \<le> 1 / 2 ^ 52"
    using nonneg exact exact2 by (simp_all only: float_sum_near_one)
  have counts: "(case count_sentiment articles (0, 0, 0) of
           (p, n, u) \<Rightarrow>
             p + n + u = length articles \<and>
             positive_ratio (analyze_sentiment_bias articles)
               = rnd (of_nat p / of_nat (length articles)) \<and>
             negative_ratio (analyze_sentiment_bias articles)
               = rnd (of_nat n / of_nat (length articles)) \<and>
             neutral_ratio (analyze_sentiment_bias articles)
               = rnd (of_nat u / of_nat (length articles)))"
    using tot r by (simp add: c len_def)
  from counts exact floats show ?thesis unfolding r by (intro conjI)
qed

lemma positive_article_scores:
  "count_in negative_words (full_text positive_article)
     < count_in positive_words (full_text positive_article)"
  by code_simp

lemma negative_article_scores:
  "count_in positive_words (full_text negative_article)
     < count_in negative_words (full_text negative_article)"
  by code_simp

lemma neutral_article_scores:
  "count_in positive_words (full_text neutral_article)
     = count_in negative_words (full_text neutral_article)"
  by code_simp

lemma count_replicate_positive:
  "count_sentiment (replicate k positive_article @ as) (p, n, u)
     = count_sentiment as (p + k, n, u)"
  using positive_article_scores by (induction k arbitrary: p) (simp_all add: Let_def)

lemma count_replicate_negative:
  "count_sentiment (replicate k negative_article @ as) (p, n, u)
     = count_sentiment as (p, n + k, u)"
  using negative_article_scores by (induction k arbitrary: n) (simp_all add: Let_def)

lemma count_replicate_neutral:
  "count_sentiment (replicate k neutral_article @ as) (p, n, u)
     = count_sentiment as (p, n, u + k)"
  using neutral_article_scores by (induction k arbitrary: u) (simp_all add: Let_def)

lemma thirty_five_counts: "count_sentiment thirty_five_articles (0, 0, 0) = (8, 9, 18)"
  using count_replicate_neutral [of 18 "[]" 8 9 0]
  by (simp add: thirty_five_articles_def count_replicate_positive count_replicate_negative)


lemma rnd_8_35: "rnd (8 / 35) = 8235153604334621 / 36028797018963968"
  using rnd_eqI [of "8 / 35" "-3" 8235153604334621] by (simp add: power_int_minus)

lemma rnd_9_35: "rnd (9 / 35) = 289517118902389 / 1125899906842624"
  using rnd_eqI [of "9 / 35" "-2" 4632273902438224] by (simp add: power_int_minus)

lemma rnd_18_35: "rnd (18 / 35) = 289517118902389 / 562949953421312"
  using rnd_eqI [of "18 / 35" "-1" 4632273902438224] by (simp add: power_int_minus)

lemma rnd_m1_35: "rnd (- (1 / 35)) = - (8235153604334621 / 288230376151711744)"
proof -
  have "rnd (1 / 35) = 8235153604334621 / 288230376151711744"
    using rnd_eqI [of "1 / 35" "-6" 8235153604334621] by (simp add: power_int_minus)
  moreover have "rnd (- (1 / 35)) = - rnd (1 / 35)"
    by (simp add: rnd_def ilog2_def Let_def)
  ultimately show ?thesis by simp
qed

lemma thirty_five_eval:
  "analyze_sentiment_bias thirty_five_articles =
     \<lparr>positive_ratio = 8235153604334621 / 36028797018963968,
      negative_ratio = 289517118902389 / 1125899906842624,
      neutral_ratio = 289517118902389 / 562949953421312,
      sentiment_bias_score = - (8235153604334621 / 288230376151711744)\<rparr>"
proof -
  have len: "length thirty_five_articles = 35" by (simp add: thirty_five_articles_def)
  show ?thesis
    by (simp add: analyze_sentiment_bias_def thirty_five_counts len ratio_def
        rnd_8_35 rnd_9_35 rnd_18_35 rnd_m1_35)
qed

lemma sum_pos_neg:
  "fadd (8235153604334621 / 36028797018963968) (289517118902389 / 1125899906842624)
     = 4374925352302767 / 9007199254740992"
proof -
  have x: "(8235153604334621 / 36028797018963968 + 289517118902389 / 1125899906842624 :: rat)
            = 17499701409211069 / 36028797018963968" by simp
  have "round_half_even (17499701409211069 / 36028797018963968 / 2 powi (- 2 - 52))
          = 8749850704605534"
    using round_half_even_tie [of "17499701409211069 / 2" 8749850704605534]
    by (simp add: power_int_minus)
  with rnd_eval [of "17499701409211069 / 36028797018963968" "-2"]
  show ?thesis by (simp add: fadd_def x power_int_minus)
qed

lemma sum_pos_neu:
  "fadd (8235153604334621 / 36028797018963968) (289517118902389 / 562949953421312)
     = 6691062303521879 / 9007199254740992"
  using rnd_eqI [of "26764249214087517 / 36028797018963968" "-1" 6691062303521879]
  by (simp add: fadd_def power_int_minus)

lemma sum_neg_neu:
  "fadd (289517118902389 / 1125899906842624) (289517118902389 / 562949953421312)
     = 868551356707167 / 1125899906842624"
  using rnd_eqI [of "868551356707167 / 1125899906842624" "-1" 6948410853657336]
  by (simp add: fadd_def power_int_minus)

lemma sum_pos_neg_neu:
  "fadd (4374925352302767 / 9007199254740992) (289517118902389 / 562949953421312)
     = 9007199254740991 / 9007199254740992"
  using rnd_eqI [of "9007199254740991 / 9007199254740992" "-1" 9007199254740991]
  by (simp add: fadd_def power_int_minus)

lemma sum_pos_neu_neg:
  "fadd (6691062303521879 / 9007199254740992) (289517118902389 / 1125899906842624)
     = 9007199254740991 / 9007199254740992"
  using rnd_eqI [of "9007199254740991 / 9007199254740992" "-1" 9007199254740991]
  by (simp add: fadd_def power_int_minus)

lemma sum_neg_neu_pos:
  "fadd (868551356707167 / 1125899906842624) (8235153604334621 / 36028797018963968)
     = 9007199254740991 / 9007199254740992"
  using rnd_eqI [of "36028797018963965 / 36028797018963968" "-1" 9007199254740991]
  by (simp add: fadd_def power_int_minus)

text \<open>
  For 8 positive, 9 negative and 18 neutral articles the three ratios do not add up to 1:
  not as exact numbers, and in none of the three orders of float addition.
\<close>

theorem sentiment_ratios_sum_not_one:
  "positive_ratio (analyze_sentiment_bias thirty_five_articles)
     + negative_ratio (analyze_sentiment_bias thirty_five_articles)
     + neutral_ratio (analyze_sentiment_bias thirty_five_articles) \<noteq> 1 \<and>
   fadd (fadd (positive_ratio (analyze_sentiment_bias thirty_five_articles))
              (negative_ratio (analyze_sentiment_bias thirty_five_articles)))
        (neutral_ratio (analyze_sentiment_bias thirty_five_articles)) \<noteq> 1 \<and>
   fadd (fadd (positive_ratio (analyze_sentiment_bias thirty_five_articles))
              (neutral_ratio (analyze_sentiment_bias thirty_five_articles)))
        (negative_ratio (analyze_sentiment_bias thirty_five_articles)) \<noteq> 1 \<and>
   fadd (fadd (negative_ratio (analyze_sentiment_bias thirty_five_articles))
              (neutral_ratio (analyze_sentiment_bias thirty_five_articles)))
        (positive_ratio (analyze_sentiment_bias thirty_five_articles)) \<noteq> 1"
  by (simp add: thirty_five_eval sum_pos_neg sum_pos_neu sum_neg_neu sum_pos_neg_neu
      sum_pos_neu_neg sum_neg_neu_pos)

theorem sentiment_ratios_sum_witness:
  "thirty_five_articles \<noteq> [] \<and>
   \<bar>positive_ratio (analyze_sentiment_bias thirty_five_articles)
      + negative_ratio (analyze_sentiment_bias thirty_five_articles)
      + neutral_ratio (analyze_sentiment_bias thirty_five_articles) - 1\<bar> \<le> 1 / 2 ^ 53 \<and>
   \<bar>fadd (fadd (positive_ratio (analyze_sentiment_bias thirty_five_articles))
               (negative_ratio (analyze_sentiment_bias thirty_five_articles)))
         (neutral_ratio (analyze_sentiment_bias thirty_five_articles)) - 1\<bar> \<le> 1 / 2 ^ 52"
proof -
  have h: "thirty_five_articles \<noteq> []" by (simp add: thirty_five_articles_def)
  from sentiment_ratios_sum [OF h] h show ?thesis by blast
qed

section \<open>Requests to the news API\<close>

lemma request_handler_idem: "request_handler (request_handler e) = request_handler e"
  by (cases e) simp_all

lemma make_request_handled:
  "handled (fst (make_request depth net i)) = fst (make_request depth net i)"
proof (induction depth arbitrary: i)
  case 0
  then show ?case by (simp add: handled_def)
next
  case (Suc depth)
  show ?case
    by (cases "net i")
      (auto simp: handled_def request_handler_idem split: prod.splits sum.splits)
qed

lemma make_request_trace:
  assumes "\<forall>j<k. is_429 (net (i + j))" "\<not> is_429 (net (i + k))" "k < depth"
  shows "make_request depth net i =
           (fst (make_request (Suc 0) net (i + k)),
            concat (replicate k [RateLimit, Request, Sleep 60]) @ [RateLimit, Request])"
  using assms
proof (induction k arbitrary: depth i)
  case 0
  then obtain d where d: "depth = Suc d" by (cases depth) auto
  from 0 show ?case
    by (cases "net i") (auto simp: d is_429_def)
next
  case (Suc k)
  then obtain d where d: "depth = Suc d" by (cases depth) auto
  from Suc.prems(1) have first: "is_429 (net i)" by (metis add.right_neutral zero_less_Suc)
  have rest: "\<forall>j<k. is_429 (net (Suc i + j))"
    using Suc.prems(1) by (metis Suc_less_eq add_Suc_shift)
  have stop: "\<not> is_429 (net (Suc i + k))" using Suc.prems(2) by simp
  have "k < d" using Suc.prems(3) d by simp
  from Suc.IH [OF rest stop this]
  have ih: "make_request d net (Suc i) =
           (fst (make_request (Suc 0) net (Suc i + k)),
            concat (replicate k [RateLimit, Request, Sleep 60]) @ [RateLimit, Request])" .
  obtain body where r: "net i = HttpResponse 429 body"
    using first by (cases "net i") (auto simp: is_429_def)
  show ?case
    using make_request_handled [of "Suc 0" net "Suc i + k"]
    by (simp add: d r ih)
qed

lemma requests_issued_trace:
  "requests_issued (concat (replicate k [RateLimit, Request, Sleep 60]) @ [RateLimit, Request])
     = k + 1"
  by (induction k) (simp_all add: requests_issued_def)

text \<open>
  C3 (as amended). A response with status 429 is followed by a sleep of 60 seconds and one
  more request, and a 429 answer to that request is handled in the same way: when the first
  \<open>k\<close> responses are 429, the next one is not, and the recursion limit allows \<open>k\<close> nested
  calls, one logical call sleeps \<open>k\<close> times, issues \<open>k + 1\<close> requests and returns what the
  last response gives.
\<close>

theorem make_request_retries:
  assumes "\<forall>j<k. is_429 (net (i + j))" "\<not> is_429 (net (i + k))" "k < depth"
  shows "snd (make_request depth net i) =
           concat (replicate k [RateLimit, Request, Sleep 60]) @ [RateLimit, Request] \<and>
         requests_issued (snd (make_request depth net i)) = k + 1 \<and>
         fst (make_request depth net i) = fst (make_request (Suc 0) net (i + k))"
  using make_request_trace [OF assms] requests_issued_trace [of k] by simp

theorem make_request_retries_witness:
  "is_429 (retry_network 0) \<and> \<not> is_429 (retry_network 1) \<and>
   snd (make_request 1000 retry_network 0) =
     [RateLimit, Request, Sleep 60, RateLimit, Request] \<and>
   requests_issued (snd (make_request 1000 retry_network 0)) = 2 \<and>
   fst (make_request 1000 retry_network 0) = Inr ok_data"
proof -
  have a: "\<forall>j<1. is_429 (retry_network (0 + j))"
    by (simp add: retry_network_def is_429_def)
  have b: "\<not> is_429 (retry_network (0 + 1))"
    by (simp add: retry_network_def is_429_def)
  have c: "(1::nat) < 1000" by simp
  have d: "fst (make_request (Suc 0) retry_network (0 + 1)) = Inr ok_data"
    by (simp add: retry_network_def handled_def)
  have e: "requests_issued [RateLimit, Request, Sleep 60, RateLimit, Request] = 2"
    by (simp add: requests_issued_def)
  from make_request_retries [OF a b c] a b d e show ?thesis by simp
qed

text \<open>Two 429 responses in a row: three requests for one logical call.\<close>

theorem make_request_three_requests:
  "\<not> requests_issued (snd (make_request 1000 busy_network 0)) \<le> 2"
proof -
  have a: "\<forall>j<2. is_429 (busy_network (0 + j))"
    by (simp add: busy_network_def is_429_def)
  have b: "\<not> is_429 (busy_network (0 + 2))"
    by (simp add: busy_network_def is_429_def)
  have c: "(2::nat) < 1000" by simp
  from make_request_trace [OF a b c] requests_issued_trace [of 2] show ?thesis by simp
qed

section \<open>Summarizing a list of articles\<close>

lemma attempt_text_summary [simp]: "attempt_text (a(''summary'' \<mapsto> v)) = attempt_text a"
  by (simp add: attempt_text_def get_default_def subscript_def split: option.splits pyval.splits)

lemma summary_of_summary [simp]:
  "summary_of model server ml (a(''summary'' \<mapsto> v)) s = summary_of model server ml a s"
  by (simp add: summary_of_def)





section \<open>Credibility history\<close>





lemma update_fails:
  assumes "make_entry now score articles = Inl x"
  shows "history_of (update_source_history fsum now s score articles d) s = history_of d s \<and>
         (\<forall>r. source_record_of d s = Some r \<longrightarrow>
              source_record_of (update_source_history fsum now s score articles d) s = Some r)"
  using assms
  by (auto simp: update_source_history_def Let_def source_record_of_def history_of_def
      new_source_record_def split: option.splits)








































section \<open>Exceptions: caught or raised again\<close>

lemma summarize_text_catches:
  assumes "validate_summary_length (PStr t)"
    "summarizer_make_request model server n
       (summary_prompt ml (if 3000 < length t then take 3000 t else t)) = Inl e"
  shows "summarize_text model server n (PStr t) ml
           = (''Error generating summary: '' @ exn_str e, Suc n)"
  using assms by (simp add: Let_def)

lemma score_catches_performance:
  assumes "quality_scores articles = Inl e"
  shows "\<exists>rep. fst (score_source_credibility fsum now source articles d) = Inr rep \<and>
           recent_performance rep = 1 / 2"
  using assms by (simp add: score_source_credibility_def Let_def analyze_recent_performance_def)

lemma score_catches_consistency:
  assumes "consistency_body articles = Inl e"
  shows "\<exists>rep. fst (score_source_credibility fsum now source articles d) = Inr rep \<and>
           consistency_score rep = 1 / 2"
  using assms by (simp add: score_source_credibility_def Let_def calculate_consistency_score_def)

lemma query_catches:
  assumes "q_qa_chain eng = Some chain" "chain question = Inl e"
  shows "query eng question = Inr (QError (''Query failed: '' @ exn_str e))"
  using assms by (simp add: query_def query_body_def)

lemma request_failure:
  assumes "fst (make_request depth net i) = Inl e"
  shows "fst (get_article_count depth net i) = 0 \<and> fst (fetch_news depth net i) = Inl e"
  using assms
  by (cases "make_request depth net i") (auto simp: get_article_count_def fetch_news_def)

lemma fetch_news_error_status:
  assumes "fst (make_request depth net i) = Inr data" "d_status data \<noteq> Str ''ok''"
  shows "\<exists>m. fst (fetch_news depth net i) = Inl (Exception (''NewsAPI error: '' @ m))"
  using assms
  by (cases "make_request depth net i") (auto simp: fetch_news_def)

lemma clear_rmtree_fails:
  assumes "path_exists disk sp" "rmtree sp disk = Inl e"
  shows "\<not> fst (clear_vector_store sp disk)"
  using assms by (simp add: clear_vector_store_def)

lemma clear_remove_fails:
  assumes "\<not> path_exists disk sp" "path_exists disk ''data/ingestion_metadata.json''"
    "os_remove ''data/ingestion_metadata.json'' disk = Inl e"
  shows "\<not> fst (clear_vector_store sp disk)"
  using assms by (simp add: clear_vector_store_def metadata_files_def)

text \<open>
  C7 (as amended). The operations whose \<open>except\<close> clause returns catch what is raised in
  their body and return an error-flagged result or a safe default. When an article makes a
  helper of \<open>score_source_credibility\<close> raise, the helper returns the neutral 0.5 and
  \<open>score_source_credibility\<close> returns its report with that score; when the new entry cannot be
  built, \<open>_update_source_history\<close> returns and the history stays as it was (the \<open>except\<close>
  clause of \<open>score_source_credibility\<close> itself is never reached, since every helper catches
  its own exceptions). \<open>query\<close> returns an error result when the chain raises,
  \<open>get_article_count\<close> returns 0 and \<open>summarize_text\<close> an error string when the request
  raises, \<open>ingest_documents\<close> returns \<open>False\<close> when loading the index or splitting raises, and
  \<open>clear_vector_store\<close> returns \<open>False\<close> when a deletion raises. \<open>fetch_news\<close> and the two
  \<open>_make_request\<close> methods do not: \<open>fetch_news\<close> raises again what \<open>_make_request\<close> raised
  and raises an \<open>Exception\<close> of its own for an error status in the body; the
  \<open>_make_request\<close> of the fetcher raises for an exception of \<open>requests.get\<close>, for status 401
  and for a body that is not JSON; the \<open>_make_request\<close> of the summarizer raises for an
  exception of \<open>requests.post\<close> and for a status other than 200.
\<close>

theorem exceptions_caught_or_raised_again:
  "(quality_scores articles = Inl e1 \<longrightarrow>
      (\<exists>rep. fst (score_source_credibility fsum now source articles d) = Inr rep \<and>
             recent_performance rep = 1 / 2)) \<and>
   (consistency_body articles = Inl e2 \<longrightarrow>
      (\<exists>rep. fst (score_source_credibility fsum now source articles d) = Inr rep \<and>
             consistency_score rep = 1 / 2)) \<and>
   (make_entry now score articles = Inl e3 \<longrightarrow>
      history_of (update_source_history fsum now source score articles d) source
        = history_of d source) \<and>
   (q_qa_chain eng = Some chain \<and> chain question = Inl e4 \<longrightarrow>
      query eng question = Inr (QError (''Query failed: '' @ exn_str e4))) \<and>
   (fst (make_request depth net i) = Inl e5 \<longrightarrow>
      fst (get_article_count depth net i) = 0 \<and> fst (fetch_news depth net i) = Inl e5) \<and>
   (validate_summary_length (PStr t) \<and>
    summarizer_make_request model server n
      (summary_prompt ml (if 3000 < length t then take 3000 t else t)) = Inl e6 \<longrightarrow>
      fst (summarize_text model server n (PStr t) ml)
        = ''Error generating summary: '' @ exn_str e6) \<and>
   (path_exists (i_disk st) sp \<and> x_load_local x (i_disk st) = Inl e7 \<longrightarrow>
      \<not> fst (ingest_documents x sp st batch)) \<and>
   (collect_valid batch = Inr valid \<and> create_documents (x_now x) valid = Inr docs \<and>
    split_all x docs = Inl e8 \<longrightarrow> \<not> fst (ingest_documents x sp st batch)) \<and>
   (path_exists disk sp \<and> rmtree sp disk = Inl e9 \<longrightarrow> \<not> fst (clear_vector_store sp disk)) \<and>
   (\<not> path_exists disk sp \<and> path_exists disk ''data/ingestion_metadata.json'' \<and>
    os_remove ''data/ingestion_metadata.json'' disk = Inl e10 \<longrightarrow>
      \<not> fst (clear_vector_store sp disk)) \<and>
   (fst (make_request depth net i) = Inr data \<and> d_status data \<noteq> Str ''ok'' \<longrightarrow>
      (\<exists>m. fst (fetch_news depth net i) = Inl (Exception (''NewsAPI error: '' @ m)))) \<and>
   (net i = HttpRaises e11 \<longrightarrow>
      fst (make_request (Suc depth) net i) = Inl (request_handler e11)) \<and>
   (net i = HttpResponse 401 body \<longrightarrow>
      fst (make_request (Suc depth) net i)
        = Inl (ValueError ''Invalid NewsAPI key. Please check your API key.'')) \<and>
   (net i = HttpResponse 200 (Inl e12) \<longrightarrow>
      fst (make_request (Suc depth) net i) = Inl (request_handler e12)) \<and>
   (server n prompt = LlmRaises e13 \<longrightarrow>
      summarizer_make_request model server n prompt = Inl (ollama_handler e13)) \<and>
   (server n prompt = LlmResponse code reply \<and> code \<noteq> 200 \<longrightarrow>
      (\<exists>m. summarizer_make_request model server n prompt = Inl (Exception m)))"
proof -
  have a: "quality_scores articles = Inl e1 \<longrightarrow>
      (\<exists>rep. fst (score_source_credibility fsum now source articles d) = Inr rep \<and>
             recent_performance rep = 1 / 2)"
    using score_catches_performance [of articles e1 fsum now source d] by blast
  have b: "consistency_body articles = Inl e2 \<longrightarrow>
      (\<exists>rep. fst (score_source_credibility fsum now source articles d) = Inr rep \<and>
             consistency_score rep = 1 / 2)"
    using score_catches_consistency [of articles e2 fsum now source d] by blast
  have c: "make_entry now score articles = Inl e3 \<longrightarrow>
      history_of (update_source_history fsum now source score articles d) source
        = history_of d source"
    using update_fails [of now score articles e3 fsum source d] by blast
  have q: "q_qa_chain eng = Some chain \<and> chain question = Inl e4 \<longrightarrow>
      query eng question = Inr (QError (''Query failed: '' @ exn_str e4))"
    using query_catches [of eng chain question e4] by blast
  have f: "fst (make_request depth net i) = Inl e5 \<longrightarrow>
      fst (get_article_count depth net i) = 0 \<and> fst (fetch_news depth net i) = Inl e5"
    using request_failure [of depth net i e5] by blast
  have s: "validate_summary_length (PStr t) \<and>
    summarizer_make_request model server n
      (summary_prompt ml (if 3000 < length t then take 3000 t else t)) = Inl e6 \<longrightarrow>
      fst (summarize_text model server n (PStr t) ml)
        = ''Error generating summary: '' @ exn_str e6"
    using summarize_text_catches [of t model server n ml e6] by auto
  have l: "path_exists (i_disk st) sp \<and> x_load_local x (i_disk st) = Inl e7 \<longrightarrow>
      \<not> fst (ingest_documents x sp st batch)"
    unfolding ingest_flag by auto
  have p: "collect_valid batch = Inr valid \<and> create_documents (x_now x) valid = Inr docs \<and>
      split_all x docs = Inl e8 \<longrightarrow> \<not> fst (ingest_documents x sp st batch)"
    unfolding ingest_flag by auto
  have r: "path_exists disk sp \<and> rmtree sp disk = Inl e9 \<longrightarrow>
      \<not> fst (clear_vector_store sp disk)"
    using clear_rmtree_fails [of disk sp e9] by blast
  have rm: "\<not> path_exists disk sp \<and> path_exists disk ''data/ingestion_metadata.json'' \<and>
      os_remove ''data/ingestion_metadata.json'' disk = Inl e10 \<longrightarrow>
      \<not> fst (clear_vector_store sp disk)"
    using clear_remove_fails [of disk sp e10] by blast
  have g: "fst (make_request depth net i) = Inr data \<and> d_status data \<noteq> Str ''ok'' \<longrightarrow>
      (\<exists>m. fst (fetch_news depth net i) = Inl (Exception (''NewsAPI error: '' @ m)))"
    using fetch_news_error_status [of depth net i data] by blast
  have m1: "net i = HttpRaises e11 \<longrightarrow>
      fst (make_request (Suc depth) net i) = Inl (request_handler e11)"
    by simp
  have m2: "net i = HttpResponse 401 body \<longrightarrow>
      fst (make_request (Suc depth) net i)
        = Inl (ValueError ''Invalid NewsAPI key. Please check your API key.'')"
    by simp
  have m3: "net i = HttpResponse 200 (Inl e12) \<longrightarrow>
      fst (make_request (Suc depth) net i) = Inl (request_handler e12)"
    by (simp add: handled_def)
  have t1: "server n prompt = LlmRaises e13 \<longrightarrow>
      summarizer_make_request model server n prompt = Inl (ollama_handler e13)"
    by (simp add: summarizer_make_request_def)
  have t2: "server n prompt = LlmResponse code reply \<and> code \<noteq> 200 \<longrightarrow>
      (\<exists>m. summarizer_make_request model server n prompt = Inl (Exception m))"
    by (simp add: summarizer_make_request_def)
  from a b c q f s l p r rm g m1 m2 m3 t1 t2 show ?thesis by (intro conjI)
qed

lemma make_request_no_retry:
  assumes "\<not> is_429 (net i)" "0 < depth"
  shows "make_request depth net i = (fst (make_request (Suc 0) net i), [RateLimit, Request])"
proof -
  have a: "\<forall>j<0. is_429 (net (i + j))" by simp
  from assms(1) have b: "\<not> is_429 (net (i + 0))" by simp
  from make_request_trace [OF a b assms(2)] show ?thesis by simp
qed

lemma unauthorized_request:
  "make_request 1000 unauthorized_network 0 =
     (Inl (ValueError ''Invalid NewsAPI key. Please check your API key.''), [RateLimit, Request])"
  using make_request_no_retry [of unauthorized_network 0 1000]
  by (simp add: unauthorized_network_def is_429_def)

text \<open>A rejected key: \<open>fetch_news\<close> raises the \<open>ValueError\<close> to its caller.\<close>

theorem fetch_news_raises:
  "fetch_news 1000 unauthorized_network 0 =
     (Inl (ValueError ''Invalid NewsAPI key. Please check your API key.''), [RateLimit, Request])"
  by (simp add: fetch_news_def unauthorized_request)

lemma long_text_valid: "validate_summary_length (PStr long_text)"
  by (simp add: long_text_def py_strip_def py_isspace_def)

theorem exceptions_caught_or_raised_again_witness:
  "quality_scores [none_content_article] = Inl (TypeError no_len) \<and>
   (\<exists>rep. fst (score_source_credibility py_sum ''2024-01-01T00:00:00'' ''BBC''
                  [none_content_article] empty_data) = Inr rep \<and>
          recent_performance rep = 1 / 2) \<and>
   consistency_body [none_content_article] = Inl (AttributeError ''lower'') \<and>
   (\<exists>rep. fst (score_source_credibility py_sum ''2024-01-01T00:00:00'' ''BBC''
                  [none_content_article] empty_data) = Inr rep \<and>
          consistency_score rep = 1 / 2) \<and>
   make_entry ''2024-01-01T00:00:00'' (1 / 2) [none_content_article] = Inl (TypeError no_len) \<and>
   history_of (update_source_history py_sum ''2024-01-01T00:00:00'' ''BBC'' (1 / 2)
                 [none_content_article] empty_data) ''BBC'' = history_of empty_data ''BBC'' \<and>
   q_qa_chain broken_engine = Some broken_chain \<and>
   broken_chain ''What happened?'' = Inl (Exception ''Ollama call failed with status code 500'') \<and>
   query broken_engine ''What happened?''
     = Inr (QError ''Query failed: Ollama call failed with status code 500'') \<and>
   fst (make_request 1000 unauthorized_network 0)
     = Inl (ValueError ''Invalid NewsAPI key. Please check your API key.'') \<and>
   fst (get_article_count 1000 unauthorized_network 0) = 0 \<and>
   fst (fetch_news 1000 unauthorized_network 0)
     = Inl (ValueError ''Invalid NewsAPI key. Please check your API key.'') \<and>
   validate_summary_length (PStr long_text) \<and>
   summarizer_make_request ''mistral'' failing_server 0
      (summary_prompt 200 (if 3000 < length long_text then take 3000 long_text else long_text))
     = Inl (Exception (''Ollama request failed with status '' @ show_nat 500)) \<and>
   fst (summarize_text ''mistral'' failing_server 0 (PStr long_text) 200)
     = ''Error generating summary: '' @
       exn_str (Exception (''Ollama request failed with status '' @ show_nat 500)) \<and>
   path_exists store_disk ''data/faiss_store'' \<and>
   x_load_local failing_load_externals store_disk = Inl (Exception ''could not read the index'') \<and>
   \<not> fst (ingest_documents failing_load_externals ''data/faiss_store''
          \<lparr>i_store = None, i_disk = store_disk\<rparr> [good_article]) \<and>
   split_all failing_split_externals [good_document] = Inl (ValueError ''chunk size'') \<and>
   \<not> fst (ingest_documents failing_split_externals ''data/faiss_store''
          \<lparr>i_store = None, i_disk = store_disk\<rparr> [good_article]) \<and>
   path_exists file_at_store_disk ''data/faiss_store'' \<and>
   rmtree ''data/faiss_store'' file_at_store_disk = Inl (NotADirectoryError ''data/faiss_store'') \<and>
   \<not> fst (clear_vector_store ''data/faiss_store'' file_at_store_disk) \<and>
   \<not> path_exists metadata_dir_only_disk ''data/faiss_store'' \<and>
   path_exists metadata_dir_only_disk ''data/ingestion_metadata.json'' \<and>
   os_remove ''data/ingestion_metadata.json'' metadata_dir_only_disk
     = Inl (IsADirectoryError ''data/ingestion_metadata.json'') \<and>
   \<not> fst (clear_vector_store ''data/faiss_store'' metadata_dir_only_disk) \<and>
   fst (make_request 1000 error_network 0) = Inr error_data \<and>
   d_status error_data \<noteq> Str ''ok'' \<and>
   (\<exists>m. fst (fetch_news 1000 error_network 0) = Inl (Exception (''NewsAPI error: '' @ m))) \<and>
   offline_network 0 = HttpRaises (RequestsConnectionError ''Connection refused'') \<and>
   fst (make_request (Suc 999) offline_network 0)
     = Inl (Exception ''Connection error. Please check your internet connection.'') \<and>
   unauthorized_network 0 = HttpResponse 401 (Inl (ValueError ''no JSON'')) \<and>
   fst (make_request (Suc 999) unauthorized_network 0)
     = Inl (ValueError ''Invalid NewsAPI key. Please check your API key.'') \<and>
   garbled_network 0
     = HttpResponse 200 (Inl (ValueError ''Expecting value: line 1 column 1 (char 0)'')) \<and>
   fst (make_request (Suc 999) garbled_network 0)
     = Inl (ValueError ''Expecting value: line 1 column 1 (char 0)'') \<and>
   offline_server 0 ''Hello''
     = LlmRaises (RequestsConnectionError ''Connection refused'') \<and>
   summarizer_make_request ''mistral'' offline_server 0 ''Hello''
     = Inl (Exception (''Cannot connect to Ollama. Make sure it'' @ [CHR 0x27] @ ''s running.'')) \<and>
   failing_server 0 ''Hello'' = LlmResponse 500 (Inl (ValueError ''no JSON'')) \<and>
   (\<exists>m. summarizer_make_request ''mistral'' failing_server 0 ''Hello'' = Inl (Exception m))"
proof -
  let ?now = "''2024-01-01T00:00:00''"
  let ?sp = "''data/faiss_store''"
  let ?st = "\<lparr>i_store = None, i_disk = store_disk\<rparr>"
  note main = exceptions_caught_or_raised_again
  have q: "quality_scores [none_content_article] = Inl (TypeError no_len)"
    by (simp add: article_quality_def content_string_def get_default_def
        none_content_article_def)
  from main [where articles = "[none_content_article]" and ?e1.0 = "TypeError no_len"
      and fsum = py_sum and now = ?now and source = "''BBC''" and d = empty_data, THEN conjunct1]
  have "quality_scores [none_content_article] = Inl (TypeError no_len) \<longrightarrow>
      (\<exists>rep. fst (score_source_credibility py_sum ?now ''BBC''
                  [none_content_article] empty_data) = Inr rep \<and>
             recent_performance rep = 1 / 2)"
    by blast
  with q have q': "\<exists>rep. fst (score_source_credibility py_sum ?now ''BBC''
                  [none_content_article] empty_data) = Inr rep \<and>
             recent_performance rep = 1 / 2" by simp
  have c: "consistency_body [none_content_article] = Inl (AttributeError ''lower'')"
    by (simp add: consistency_body_def get_default_def none_content_article_def)
  from main [where articles = "[none_content_article]" and ?e2.0 = "AttributeError ''lower''"
      and fsum = py_sum and now = ?now and source = "''BBC''" and d = empty_data, THEN conjunct2, THEN conjunct1]
  have "consistency_body [none_content_article] = Inl (AttributeError ''lower'') \<longrightarrow>
      (\<exists>rep. fst (score_source_credibility py_sum ?now ''BBC''
                  [none_content_article] empty_data) = Inr rep \<and>
             consistency_score rep = 1 / 2)"
    by blast
  with c have c': "\<exists>rep. fst (score_source_credibility py_sum ?now ''BBC''
                  [none_content_article] empty_data) = Inr rep \<and>
             consistency_score rep = 1 / 2" by simp
  have u: "make_entry ?now (1 / 2) [none_content_article] = Inl (TypeError no_len)"
    by (simp add: make_entry_def content_string_def get_default_def none_content_article_def)
  from main [where articles = "[none_content_article]" and ?e3.0 = "TypeError no_len"
      and fsum = py_sum and now = ?now and source = "''BBC''" and d = empty_data
      and score = "1 / 2", THEN conjunct2, THEN conjunct2, THEN conjunct1]
  have "make_entry ?now (1 / 2) [none_content_article] = Inl (TypeError no_len) \<longrightarrow>
      history_of (update_source_history py_sum ?now ''BBC'' (1 / 2)
                 [none_content_article] empty_data) ''BBC'' = history_of empty_data ''BBC''"
    by blast
  with u have u': "history_of (update_source_history py_sum ?now ''BBC'' (1 / 2)
                 [none_content_article] empty_data) ''BBC'' = history_of empty_data ''BBC''"
    by simp
  have k: "q_qa_chain broken_engine = Some broken_chain"
    "broken_chain ''What happened?'' = Inl (Exception ''Ollama call failed with status code 500'')"
    by (simp_all add: broken_engine_def broken_chain_def)
  from main [where eng = broken_engine and chain = broken_chain
      and question = "''What happened?''"
      and ?e4.0 = "Exception ''Ollama call failed with status code 500''", THEN conjunct2, THEN conjunct2, THEN conjunct2, THEN conjunct1]
  have "q_qa_chain broken_engine = Some broken_chain \<and>
      broken_chain ''What happened?''
        = Inl (Exception ''Ollama call failed with status code 500'') \<longrightarrow>
      query broken_engine ''What happened?''
        = Inr (QError (''Query failed: '' @
                 exn_str (Exception ''Ollama call failed with status code 500'')))"
    by blast
  with k have k': "query broken_engine ''What happened?''
     = Inr (QError ''Query failed: Ollama call failed with status code 500'')" by simp
  have m: "fst (make_request 1000 unauthorized_network 0)
     = Inl (ValueError ''Invalid NewsAPI key. Please check your API key.'')"
    by (simp add: unauthorized_request)
  from main [where depth = 1000 and net = unauthorized_network and i = 0
      and ?e5.0 = "ValueError ''Invalid NewsAPI key. Please check your API key.''", THEN conjunct2, THEN conjunct2, THEN conjunct2, THEN conjunct2, THEN conjunct1]
  have "fst (make_request 1000 unauthorized_network 0)
        = Inl (ValueError ''Invalid NewsAPI key. Please check your API key.'') \<longrightarrow>
      fst (get_article_count 1000 unauthorized_network 0) = 0 \<and>
      fst (fetch_news 1000 unauthorized_network 0)
        = Inl (ValueError ''Invalid NewsAPI key. Please check your API key.'')"
    by blast
  with m have m': "fst (get_article_count 1000 unauthorized_network 0) = 0"
    "fst (fetch_news 1000 unauthorized_network 0)
        = Inl (ValueError ''Invalid NewsAPI key. Please check your API key.'')"
    by simp_all
  have s: "summarizer_make_request ''mistral'' failing_server 0
      (summary_prompt 200 (if 3000 < length long_text then take 3000 long_text else long_text))
     = Inl (Exception (''Ollama request failed with status '' @ show_nat 500))"
    by (simp add: summarizer_make_request_def failing_server_def)
  from main [where t = long_text and model = "''mistral''" and server = failing_server
      and n = 0 and ml = 200
      and ?e6.0 = "Exception (''Ollama request failed with status '' @ show_nat 500)", THEN conjunct2, THEN conjunct2, THEN conjunct2, THEN conjunct2, THEN conjunct2, THEN conjunct1]
  have "validate_summary_length (PStr long_text) \<and>
      summarizer_make_request ''mistral'' failing_server 0
        (summary_prompt 200 (if 3000 < length long_text then take 3000 long_text else long_text))
       = Inl (Exception (''Ollama request failed with status '' @ show_nat 500)) \<longrightarrow>
      fst (summarize_text ''mistral'' failing_server 0 (PStr long_text) 200)
        = ''Error generating summary: '' @
          exn_str (Exception (''Ollama request failed with status '' @ show_nat 500))"
    by blast
  with s long_text_valid
  have s': "fst (summarize_text ''mistral'' failing_server 0 (PStr long_text) 200)
        = ''Error generating summary: '' @
          exn_str (Exception (''Ollama request failed with status '' @ show_nat 500))"
    by blast
  have ex: "path_exists store_disk ?sp" by (simp add: path_exists_def store_disk_def)
  have l: "x_load_local failing_load_externals store_disk
      = Inl (Exception ''could not read the index'')"
    by (simp add: failing_load_externals_def)
  from main [where x = failing_load_externals and sp = ?sp and st = ?st
      and batch = "[good_article]" and ?e7.0 = "Exception ''could not read the index''", THEN conjunct2, THEN conjunct2, THEN conjunct2, THEN conjunct2, THEN conjunct2, THEN conjunct2, THEN conjunct1]
  have "path_exists (i_disk ?st) ?sp \<and>
      x_load_local failing_load_externals (i_disk ?st)
        = Inl (Exception ''could not read the index'') \<longrightarrow>
      \<not> fst (ingest_documents failing_load_externals ?sp ?st [good_article])"
    by blast
  with ex l
  have l': "\<not> fst (ingest_documents failing_load_externals ?sp ?st [good_article])"
    by simp
  have cv: "collect_valid [good_article] = Inr [good_article]"
    by (simp add: collect_valid_spec good_valid)
  have n: "x_now failing_split_externals = ?now"
    by (simp add: failing_split_externals_def nominal_externals_def)
  have p: "split_all failing_split_externals [good_document] = Inl (ValueError ''chunk size'')"
    by (simp add: failing_split_externals_def)
  from main [where x = failing_split_externals and sp = ?sp and st = ?st
      and batch = "[good_article]" and valid = "[good_article]" and docs = "[good_document]"
      and ?e8.0 = "ValueError ''chunk size''", THEN conjunct2, THEN conjunct2, THEN conjunct2, THEN conjunct2, THEN conjunct2, THEN conjunct2, THEN conjunct2, THEN conjunct1]
  have "collect_valid [good_article] = Inr [good_article] \<and>
      create_documents (x_now failing_split_externals) [good_article] = Inr [good_document] \<and>
      split_all failing_split_externals [good_document] = Inl (ValueError ''chunk size'') \<longrightarrow>
      \<not> fst (ingest_documents failing_split_externals ?sp ?st [good_article])"
    by blast
  with cv good_documents n p
  have p': "\<not> fst (ingest_documents failing_split_externals ?sp ?st [good_article])"
    by simp
  have r: "path_exists file_at_store_disk ?sp"
    "rmtree ?sp file_at_store_disk = Inl (NotADirectoryError ?sp)"
    by (simp_all add: path_exists_def rmtree_def file_at_store_disk_def)
  from main [where disk = file_at_store_disk and sp = ?sp
      and ?e9.0 = "NotADirectoryError ?sp", THEN conjunct2, THEN conjunct2, THEN conjunct2, THEN conjunct2, THEN conjunct2, THEN conjunct2, THEN conjunct2, THEN conjunct2, THEN conjunct1]
  have "path_exists file_at_store_disk ?sp \<and>
      rmtree ?sp file_at_store_disk = Inl (NotADirectoryError ?sp) \<longrightarrow>
      \<not> fst (clear_vector_store ?sp file_at_store_disk)"
    by blast
  with r have r': "\<not> fst (clear_vector_store ?sp file_at_store_disk)" by simp
  have o: "\<not> path_exists metadata_dir_only_disk ?sp"
    "path_exists metadata_dir_only_disk ''data/ingestion_metadata.json''"
    "os_remove ''data/ingestion_metadata.json'' metadata_dir_only_disk
       = Inl (IsADirectoryError ''data/ingestion_metadata.json'')"
    by (simp_all add: path_exists_def metadata_dir_only_disk_def os_remove_def)
  from main [where disk = metadata_dir_only_disk and sp = ?sp
      and ?e10.0 = "IsADirectoryError ''data/ingestion_metadata.json''", THEN conjunct2, THEN conjunct2, THEN conjunct2, THEN conjunct2, THEN conjunct2, THEN conjunct2, THEN conjunct2, THEN conjunct2, THEN conjunct2, THEN conjunct1]
  have "\<not> path_exists metadata_dir_only_disk ?sp \<and>
      path_exists metadata_dir_only_disk ''data/ingestion_metadata.json'' \<and>
      os_remove ''data/ingestion_metadata.json'' metadata_dir_only_disk
        = Inl (IsADirectoryError ''data/ingestion_metadata.json'') \<longrightarrow>
      \<not> fst (clear_vector_store ?sp metadata_dir_only_disk)"
    by blast
  with o have o': "\<not> fst (clear_vector_store ?sp metadata_dir_only_disk)" by simp
  have g: "fst (make_request 1000 error_network 0) = Inr error_data"
    "d_status error_data \<noteq> Str ''ok''"
    using make_request_no_retry [of error_network 0 1000]
    by (simp_all add: error_network_def is_429_def handled_def error_data_def)
  from main [where depth = 1000 and net = error_network and i = 0 and data = error_data, THEN conjunct2, THEN conjunct2, THEN conjunct2, THEN conjunct2, THEN conjunct2, THEN conjunct2, THEN conjunct2, THEN conjunct2, THEN conjunct2, THEN conjunct2, THEN conjunct1]
  have "fst (make_request 1000 error_network 0) = Inr error_data \<and>
      d_status error_data \<noteq> Str ''ok'' \<longrightarrow>
      (\<exists>m. fst (fetch_news 1000 error_network 0) = Inl (Exception (''NewsAPI error: '' @ m)))"
    by blast
  with g have g': "\<exists>m. fst (fetch_news 1000 error_network 0)
      = Inl (Exception (''NewsAPI error: '' @ m))" by simp
  have m1: "offline_network 0 = HttpRaises (RequestsConnectionError ''Connection refused'')"
    by (simp add: offline_network_def)
  from main [where depth = 999 and net = offline_network and i = 0
      and ?e11.0 = "RequestsConnectionError ''Connection refused''", THEN conjunct2, THEN conjunct2, THEN conjunct2, THEN conjunct2, THEN conjunct2, THEN conjunct2, THEN conjunct2, THEN conjunct2, THEN conjunct2, THEN conjunct2, THEN conjunct2, THEN conjunct1]
  have "offline_network 0 = HttpRaises (RequestsConnectionError ''Connection refused'') \<longrightarrow>
      fst (make_request (Suc 999) offline_network 0)
        = Inl (request_handler (RequestsConnectionError ''Connection refused''))"
    by blast
  with m1 have m1': "fst (make_request (Suc 999) offline_network 0)
     = Inl (Exception ''Connection error. Please check your internet connection.'')"
    by simp
  have m2: "unauthorized_network 0 = HttpResponse 401 (Inl (ValueError ''no JSON''))"
    by (simp add: unauthorized_network_def)
  from main [where depth = 999 and net = unauthorized_network and i = 0
      and body = "Inl (ValueError ''no JSON'')", THEN conjunct2, THEN conjunct2, THEN conjunct2, THEN conjunct2, THEN conjunct2, THEN conjunct2, THEN conjunct2, THEN conjunct2, THEN conjunct2, THEN conjunct2, THEN conjunct2, THEN conjunct2, THEN conjunct1]
  have "unauthorized_network 0 = HttpResponse 401 (Inl (ValueError ''no JSON'')) \<longrightarrow>
      fst (make_request (Suc 999) unauthorized_network 0)
        = Inl (ValueError ''Invalid NewsAPI key. Please check your API key.'')"
    by blast
  with m2 have m2': "fst (make_request (Suc 999) unauthorized_network 0)
     = Inl (ValueError ''Invalid NewsAPI key. Please check your API key.'')"
    by simp
  have m3: "garbled_network 0
     = HttpResponse 200 (Inl (ValueError ''Expecting value: line 1 column 1 (char 0)''))"
    by (simp add: garbled_network_def)
  from main [where depth = 999 and net = garbled_network and i = 0
      and ?e12.0 = "ValueError ''Expecting value: line 1 column 1 (char 0)''", THEN conjunct2, THEN conjunct2, THEN conjunct2, THEN conjunct2, THEN conjunct2, THEN conjunct2, THEN conjunct2, THEN conjunct2, THEN conjunct2, THEN conjunct2, THEN conjunct2, THEN conjunct2, THEN conjunct2, THEN conjunct1]
  have "garbled_network 0
        = HttpResponse 200 (Inl (ValueError ''Expecting value: line 1 column 1 (char 0)'')) \<longrightarrow>
      fst (make_request (Suc 999) garbled_network 0)
        = Inl (request_handler (ValueError ''Expecting value: line 1 column 1 (char 0)''))"
    by blast
  with m3 have m3': "fst (make_request (Suc 999) garbled_network 0)
     = Inl (ValueError ''Expecting value: line 1 column 1 (char 0)'')"
    by simp
  have t1: "offline_server 0 ''Hello''
     = LlmRaises (RequestsConnectionError ''Connection refused'')"
    by (simp add: offline_server_def)
  from main [where server = offline_server and n = 0 and prompt = "''Hello''"
      and model = "''mistral''" and ?e13.0 = "RequestsConnectionError ''Connection refused''", THEN conjunct2, THEN conjunct2, THEN conjunct2, THEN conjunct2, THEN conjunct2, THEN conjunct2, THEN conjunct2, THEN conjunct2, THEN conjunct2, THEN conjunct2, THEN conjunct2, THEN conjunct2, THEN conjunct2, THEN conjunct2, THEN conjunct1]
  have "offline_server 0 ''Hello''
        = LlmRaises (RequestsConnectionError ''Connection refused'') \<longrightarrow>
      summarizer_make_request ''mistral'' offline_server 0 ''Hello''
        = Inl (ollama_handler (RequestsConnectionError ''Connection refused''))"
    by blast
  with t1 have t1': "summarizer_make_request ''mistral'' offline_server 0 ''Hello''
     = Inl (Exception (''Cannot connect to Ollama. Make sure it'' @ [CHR 0x27] @ ''s running.''))"
    by simp
  have t2: "failing_server 0 ''Hello'' = LlmResponse 500 (Inl (ValueError ''no JSON''))"
    by (simp add: failing_server_def)
  from main [where server = failing_server and n = 0 and prompt = "''Hello''"
      and model = "''mistral''" and code = 500 and reply = "Inl (ValueError ''no JSON'')", THEN conjunct2, THEN conjunct2, THEN conjunct2, THEN conjunct2, THEN conjunct2, THEN conjunct2, THEN conjunct2, THEN conjunct2, THEN conjunct2, THEN conjunct2, THEN conjunct2, THEN conjunct2, THEN conjunct2, THEN conjunct2, THEN conjunct2]
  have "failing_server 0 ''Hello'' = LlmResponse 500 (Inl (ValueError ''no JSON'')) \<and>
      (500 :: nat) \<noteq> 200 \<longrightarrow>
      (\<exists>m. summarizer_make_request ''mistral'' failing_server 0 ''Hello'' = Inl (Exception m))"
    by blast
  with t2 have t2': "\<exists>m. summarizer_make_request ''mistral'' failing_server 0 ''Hello''
      = Inl (Exception m)" by simp
  from q q' c c' u u' k k' m m' long_text_valid s s' ex l l' p p' r r' o o' g g'
    m1 m1' m2 m2' m3 m3' t1 t1' t2 t2'
  show ?thesis by (intro conjI)
qed

end
